theory Spec2Isabelle
  imports Complex_Main "HOL-Library.Sublist"
begin

section \<open>JavaScript values\<close>

text \<open>
  The relay server (\<^verbatim>\<open>src/server/server.js\<close>) receives event payloads that are
  JavaScript values. A number is a double, held as the rational it denotes (the
  handlers never compute with payload numbers, they only test and store them);
  \<open>JNaN\<close> is the one number that is not a rational and matters for truthiness. An object is the list of
  its properties, each name once; reading a property that an object does not have
  yields \<open>JUndefined\<close>.
\<close>

datatype jsval =
    JUndefined
  | JNull
  | JBool bool
  | JNum rat
  | JNaN
  | JStr string
  | JArr "jsval list"
  | JObj "(string \<times> jsval) list"

type_synonym jsobj = "(string \<times> jsval) list"

text \<open>\<^verbatim>\<open>if (v)\<close>, \<^verbatim>\<open>!v\<close>, \<^verbatim>\<open>v || d\<close>: JavaScript truthiness.\<close>

fun truthy :: "jsval \<Rightarrow> bool" where
  "truthy JUndefined = False"
| "truthy JNull = False"
| "truthy (JBool b) = b"
| "truthy (JNum x) = (x \<noteq> 0)"
| "truthy JNaN = False"
| "truthy (JStr s) = (s \<noteq> [])"
| "truthy (JArr _) = True"
| "truthy (JObj _) = True"

text \<open>\<^verbatim>\<open>a || b\<close>\<close>

definition js_or :: "jsval \<Rightarrow> jsval \<Rightarrow> jsval" where
  "js_or a b = (if truthy a then a else b)"

text \<open>\<^verbatim>\<open>o.name\<close> on an object literal held as its list of properties.\<close>

definition obj_prop :: "jsobj \<Rightarrow> string \<Rightarrow> jsval" where
  "obj_prop ps name = (case map_of ps name of None \<Rightarrow> JUndefined | Some v \<Rightarrow> v)"

text \<open>
  \<^verbatim>\<open>data.name\<close> on a received payload. On \<^verbatim>\<open>undefined\<close> and \<^verbatim>\<open>null\<close> the
  property read raises a TypeError, which the handlers test with \<open>nullish\<close> before
  the first read; on every other value that is not an object none of the names the
  handlers read exists, so the read yields \<^verbatim>\<open>undefined\<close>.
\<close>

definition nullish :: "jsval \<Rightarrow> bool" where
  "nullish v = (v = JUndefined \<or> v = JNull)"

definition field :: "jsval \<Rightarrow> string \<Rightarrow> jsval" where
  "field v name = (case v of JObj ps \<Rightarrow> obj_prop ps name | _ \<Rightarrow> JUndefined)"

text \<open>
  \<^verbatim>\<open>a === b\<close> between a stored value and a received one. Primitive values are
  compared by value, \<^verbatim>\<open>NaN\<close> equals nothing, and arrays and objects are compared by
  reference: a value that has just been decoded from a packet is never the same
  reference as a stored one.
\<close>

fun strict_eq :: "jsval \<Rightarrow> jsval \<Rightarrow> bool" where
  "strict_eq JUndefined b = (b = JUndefined)"
| "strict_eq JNull b = (b = JNull)"
| "strict_eq (JBool x) b = (b = JBool x)"
| "strict_eq (JNum x) b = (b = JNum x)"
| "strict_eq JNaN b = False"
| "strict_eq (JStr s) b = (b = JStr s)"
| "strict_eq (JArr _) b = False"
| "strict_eq (JObj _) b = False"

section \<open>Number to string\<close>

text \<open>
  \<^verbatim>\<open>Number.prototype.toString\<close> on an integral number: the decimal digits, most
  significant first, with a minus sign for a negative number.
\<close>

definition digit_char :: "nat \<Rightarrow> char" where
  "digit_char d = ''0123456789'' ! d"

fun digits :: "nat \<Rightarrow> string" where
  "digits n = (if n < 10 then [digit_char n] else digits (n div 10) @ [digit_char (n mod 10)])"

declare digits.simps [simp del]

definition toString :: "int \<Rightarrow> string" where
  "toString i = (if i < 0 then CHR ''-'' # digits (nat (- i)) else digits (nat i))"

text \<open>Reading a decimal string back, to speak about the numeric value of a code.\<close>

definition is_digit :: "char \<Rightarrow> bool" where
  "is_digit c = (c \<in> set ''0123456789'')"

definition digit_value :: "char \<Rightarrow> nat" where
  "digit_value c = of_char c - 48"

definition numeric_value :: "string \<Rightarrow> nat" where
  "numeric_value s = foldl (\<lambda>acc c. 10 * acc + digit_value c) 0 s"

section \<open>The room store\<close>

text \<open>
  \<^verbatim>\<open>const rooms = new Map()\<close>: room code to room. A role slot holds a socket id or
  \<^verbatim>\<open>null\<close>. An annotation is the object literal the handler builds.
\<close>

record room =
  displaySocket :: "string option"
  controllerSocket :: "string option"
  annotations :: "jsobj list"
  createdAt :: string

type_synonym rooms = "string \<rightharpoonup> room"

text \<open>Truthiness of a slot or of \<^verbatim>\<open>socket.roomId\<close>: not \<^verbatim>\<open>null\<close>/\<^verbatim>\<open>undefined\<close> and not the empty string.\<close>

definition bound :: "string option \<Rightarrow> bool" where
  "bound s = (case s of None \<Rightarrow> False | Some x \<Rightarrow> x \<noteq> [])"

section \<open>Double arithmetic\<close>

text \<open>
  A JavaScript number is an IEEE 754 binary64 value. The finite ones are the rationals
  \<open>m * 2 ^ e\<close> with \<open>\<bar>m\<bar> < 2 ^ 53\<close> and \<open>- 1074 \<le> e \<le> 971\<close>. An arithmetic
  operation returns the exact result rounded to the nearest double, a tie going to the
  double with the even significand: \<open>fl\<close>. The exponent of the last place is found
  by scaling the magnitude into \<open>[2 ^ 52, 2 ^ 53)\<close>, not below the exponent
  \<open>- 1074\<close> of the subnormal numbers. Overflow to \<^verbatim>\<open>Infinity\<close> needs a magnitude of
  \<open>2 ^ 1024\<close>, which no computation of the server comes near, and is not modelled;
  neither is the sign of zero.
\<close>

definition is_double :: "rat \<Rightarrow> bool" where
  "is_double x = (\<exists>m e. \<bar>m\<bar> < 2 ^ 53 \<and> - 1074 \<le> e \<and> e \<le> 971 \<and> x = of_int m * 2 powi e)"

fun scale :: "nat \<Rightarrow> rat \<Rightarrow> int \<Rightarrow> int" where
  "scale n q e =
     (if n = 0 then e
      else if 2 ^ 53 \<le> q then scale (n - 1) (q / 2) (e + 1)
      else if q < 2 ^ 52 \<and> - 1074 < e then scale (n - 1) (q * 2) (e - 1)
      else e)"

declare scale.simps [simp del]

definition ulp_exponent :: "rat \<Rightarrow> int" where
  "ulp_exponent x = scale 2100 x 0"

definition round_half_even :: "rat \<Rightarrow> int" where
  "round_half_even q =
     (if q - of_int \<lfloor>q\<rfloor> < 1 / 2 then \<lfloor>q\<rfloor>
      else if 1 / 2 < q - of_int \<lfloor>q\<rfloor> then \<lfloor>q\<rfloor> + 1
      else if even \<lfloor>q\<rfloor> then \<lfloor>q\<rfloor> else \<lfloor>q\<rfloor> + 1)"

definition fl :: "rat \<Rightarrow> rat" where
  "fl x =
     (if x = 0 then 0
      else sgn x * of_int (round_half_even (\<bar>x\<bar> / 2 powi ulp_exponent \<bar>x\<bar>)) *
             2 powi ulp_exponent \<bar>x\<bar>)"

text \<open>\<^verbatim>\<open>a * b\<close> and \<^verbatim>\<open>a + b\<close> on numbers.\<close>

definition js_times :: "rat \<Rightarrow> rat \<Rightarrow> rat" where
  "js_times a b = fl (a * b)"

definition js_plus :: "rat \<Rightarrow> rat \<Rightarrow> rat" where
  "js_plus a b = fl (a + b)"

section \<open>The code allocator\<close>

text \<open>
  \<^verbatim>\<open>
  function generateRoomCode() {
      let code;
      do {
          code = Math.floor(1000 + Math.random() * 9000).toString();
      } while (rooms.has(code));
      return code;
  }
  \<close>
  \<open>rnd k\<close> is the result of the \<open>k\<close>-th call of \<^verbatim>\<open>Math.random()\<close>, a double from 0
  up to but not including 1. The product and the sum are the rounded ones of double
  arithmetic; \<^verbatim>\<open>Math.floor\<close> is exact. The loop has no retry bound, so the function is
  partial: \<open>None\<close> is the loop that never ends.
\<close>

definition draw :: "(nat \<Rightarrow> rat) \<Rightarrow> nat \<Rightarrow> string" where
  "draw rnd k = toString \<lfloor>js_plus 1000 (js_times (rnd k) 9000)\<rfloor>"

partial_function (option) generateRoomCode_from :: "(nat \<Rightarrow> rat) \<Rightarrow> rooms \<Rightarrow> nat \<Rightarrow> string option" where
  "generateRoomCode_from rnd rooms k =
     (if rooms (draw rnd k) \<noteq> None then generateRoomCode_from rnd rooms (Suc k)
      else Some (draw rnd k))"

definition generateRoomCode :: "(nat \<Rightarrow> rat) \<Rightarrow> rooms \<Rightarrow> string option" where
  "generateRoomCode rnd rooms = generateRoomCode_from rnd rooms 0"

declare generateRoomCode_from.simps [code]

section \<open>Sockets, environment and effects\<close>

text \<open>
  The properties the handlers keep on the socket object: \<^verbatim>\<open>socket.id\<close>,
  \<^verbatim>\<open>socket.roomId\<close> and \<^verbatim>\<open>socket.deviceType\<close> (\<open>None\<close> is \<^verbatim>\<open>undefined\<close>).
\<close>

datatype device = Display | Controller

record socket =
  socket_id :: string
  roomId :: "string option"
  deviceType :: "device option"

text \<open>
  What a handler reads from outside: the successive results of \<^verbatim>\<open>Math.random()\<close>,
  the result of \<^verbatim>\<open>Date.now()\<close> and the successive results of
  \<^verbatim>\<open>new Date().toISOString()\<close> during the call.
\<close>

record env =
  mathRandom :: "nat \<Rightarrow> rat"
  dateNow :: nat
  toISOString :: "nat \<Rightarrow> string"

text \<open>
  What a handler does to the outside, in the order of the source:
  \<^item> \<open>Join c\<close>: \<^verbatim>\<open>socket.join(c)\<close>;
  \<^item> \<open>Emit t name args\<close>: \<^verbatim>\<open>io.to(t).emit(name, ...args)\<close>, where the target is a
    room code (every member of the room) or a socket id (that socket), and a
    \<^verbatim>\<open>null\<close> target reaches nobody;
  \<^item> \<open>Ack v\<close>: \<^verbatim>\<open>callback(v)\<close>, the acknowledgement of the event;
  \<^item> \<open>SaveRoomState c r\<close>: \<^verbatim>\<open>saveRoomState(c)\<close> writing room \<open>r\<close> to the file of
    code \<open>c\<close>.
  The file write is taken to succeed, and \<^verbatim>\<open>console.log\<close> is left out.
\<close>

datatype effect =
    Join string
  | Emit "string option" string "jsval list"
  | Ack jsval
  | SaveRoomState string room

datatype js_error = TypeError

text \<open>
  A handler call loops forever, throws, or returns the new store, socket and effects.
  Nothing in the server catches an exception: a throw ends the call where it happens,
  and \<open>Throws\<close> carries the store, the socket and the effects as they are at the throw.
\<close>

datatype 'a result = Loops | Throws js_error 'a | Returns 'a

type_synonym outcome = "rooms \<times> socket \<times> effect list"

text \<open>
  The callback argument of a handler: the acknowledgement function that the transport
  appends when the client asked for an acknowledgement, or whatever other value the
  client sent in that position; \<open>Value JUndefined\<close> when there is none.
\<close>

datatype callback = Function | Value jsval

text \<open>
  \<^verbatim>\<open>if (callback) callback(v)\<close>, the last statement of a handler. A function is
  called with \<open>v\<close>; a falsy value is skipped; a truthy value that is not a function is
  called all the same, which throws a TypeError.
\<close>

fun uncallable :: "callback \<Rightarrow> bool" where
  "uncallable Function = False"
| "uncallable (Value v) = truthy v"

fun ack :: "callback \<Rightarrow> jsval \<Rightarrow> effect list" where
  "ack Function v = [Ack v]"
| "ack (Value x) v = []"

definition reply :: "callback \<Rightarrow> jsval \<Rightarrow> outcome \<Rightarrow> outcome result" where
  "reply callback v out =
     (case out of (rooms, sock, effs) \<Rightarrow>
        if uncallable callback then Throws TypeError (rooms, sock, effs)
        else Returns (rooms, sock, effs @ ack callback v))"

text \<open>
  \<^verbatim>\<open>rooms.get(v)\<close>: the keys of the store are strings, so only a string finds a
  room; the key is returned with the room, for the writes through the room object.
\<close>

definition rooms_get :: "rooms \<Rightarrow> jsval \<Rightarrow> (string \<times> room) option" where
  "rooms_get rooms v =
     (case v of
        JStr code \<Rightarrow> (case rooms code of None \<Rightarrow> None | Some room \<Rightarrow> Some (code, room))
      | _ \<Rightarrow> None)"

section \<open>The event handlers\<close>

text \<open>\<^verbatim>\<open>socket.on('create-room', (callback) => ...)\<close>\<close>

definition create_room :: "socket \<Rightarrow> env \<Rightarrow> callback \<Rightarrow> rooms \<Rightarrow> outcome result" where
  "create_room sock e callback rooms =
     (case generateRoomCode (mathRandom e) rooms of
        None \<Rightarrow> Loops
      | Some roomCode \<Rightarrow>
          reply callback (JObj [(''success'', JBool True), (''roomCode'', JStr roomCode)])
            (rooms(roomCode \<mapsto>
               \<lparr>displaySocket = Some (socket_id sock), controllerSocket = None,
                annotations = [], createdAt = toISOString e 0\<rparr>),
             sock\<lparr>roomId := Some roomCode, deviceType := Some Display\<rparr>,
             [Join roomCode]))"

text \<open>
  \<^verbatim>\<open>socket.on('join-room', (roomCode, callback) => ...)\<close>. The code is any value:
  one that is not a string (a function among them) finds no room.
\<close>

definition annotations_js :: "room \<Rightarrow> jsval" where
  "annotations_js room = JArr (map JObj (annotations room))"

definition join_room :: "socket \<Rightarrow> jsval \<Rightarrow> callback \<Rightarrow> rooms \<Rightarrow> outcome result" where
  "join_room sock roomCode callback rooms =
     (case rooms_get rooms roomCode of
        None \<Rightarrow>
          reply callback (JObj [(''success'', JBool False), (''error'', JStr ''Room not found'')])
            (rooms, sock, [])
      | Some (code, room) \<Rightarrow>
          reply callback (JObj [(''success'', JBool True), (''annotations'', annotations_js room)])
            (rooms(code \<mapsto> room\<lparr>controllerSocket := Some (socket_id sock)\<rparr>),
             sock\<lparr>roomId := Some code, deviceType := Some Controller\<rparr>,
             [Join code, Emit (displaySocket room) ''controller-connected'' []]))"

text \<open>
  The three relays to the display: \<^verbatim>\<open>tablet-movement\<close>, \<^verbatim>\<open>touch-movement\<close>,
  \<^verbatim>\<open>toggle-flashlight\<close>, and \<^verbatim>\<open>request-placement\<close>; the two relays to the
  controller: \<^verbatim>\<open>camera-position\<close> and \<^verbatim>\<open>placement-position\<close>. None of them
  writes to the store.
\<close>

definition to_display :: "jsval \<Rightarrow> string \<Rightarrow> jsval list \<Rightarrow> socket \<Rightarrow> rooms \<Rightarrow> outcome result" where
  "to_display data name args sock rooms =
     (if nullish data then Throws TypeError (rooms, sock, [])
      else case rooms_get rooms (field data ''roomId'') of
        None \<Rightarrow> Returns (rooms, sock, [])
      | Some (code, room) \<Rightarrow>
          Returns (rooms, sock,
            if bound (displaySocket room) then [Emit (displaySocket room) name args] else []))"

definition to_controller :: "jsval \<Rightarrow> string \<Rightarrow> jsval list \<Rightarrow> socket \<Rightarrow> rooms \<Rightarrow> outcome result" where
  "to_controller data name args sock rooms =
     (if nullish data then Throws TypeError (rooms, sock, [])
      else case rooms_get rooms (field data ''roomId'') of
        None \<Rightarrow> Returns (rooms, sock, [])
      | Some (code, room) \<Rightarrow>
          Returns (rooms, sock,
            if bound (controllerSocket room) then [Emit (controllerSocket room) name args] else []))"

definition tablet_movement :: "socket \<Rightarrow> jsval \<Rightarrow> rooms \<Rightarrow> outcome result" where
  "tablet_movement sock data rooms =
     to_display data ''movement-update''
       [JObj [(''rotation'', field data ''rotation''), (''speed'', field data ''speed'')]] sock rooms"

definition touch_movement :: "socket \<Rightarrow> jsval \<Rightarrow> rooms \<Rightarrow> outcome result" where
  "touch_movement sock data rooms =
     to_display data ''touch-movement-update''
       [JObj [(''movement'', field data ''movement''), (''isRunning'', field data ''isRunning'')]]
       sock rooms"

definition toggle_flashlight :: "socket \<Rightarrow> jsval \<Rightarrow> rooms \<Rightarrow> outcome result" where
  "toggle_flashlight sock data rooms = to_display data ''flashlight-toggle'' [] sock rooms"

definition request_placement :: "socket \<Rightarrow> jsval \<Rightarrow> rooms \<Rightarrow> outcome result" where
  "request_placement sock data rooms =
     to_display data ''get-placement-position''
       [JObj [(''type'', field data ''type''), (''callback'', field data ''callback'')]] sock rooms"

definition camera_position :: "socket \<Rightarrow> jsval \<Rightarrow> rooms \<Rightarrow> outcome result" where
  "camera_position sock data rooms =
     to_controller data ''camera-position-update'' [field data ''position''] sock rooms"

definition placement_position :: "socket \<Rightarrow> jsval \<Rightarrow> rooms \<Rightarrow> outcome result" where
  "placement_position sock data rooms =
     to_controller data ''placement-position-response'' [field data ''position''] sock rooms"

text \<open>
  The four \<^verbatim>\<open>add-...\<close> handlers share their tail: push the annotation, save the
  room, broadcast \<^verbatim>\<open>annotation-added\<close> to the room.
\<close>

definition add_annotation :: "jsval \<Rightarrow> jsobj \<Rightarrow> socket \<Rightarrow> rooms \<Rightarrow> outcome result" where
  "add_annotation data annotation sock rooms =
     (if nullish data then Throws TypeError (rooms, sock, [])
      else case rooms_get rooms (field data ''roomId'') of
        None \<Rightarrow> Returns (rooms, sock, [])
      | Some (code, room) \<Rightarrow>
          (let room' = room\<lparr>annotations := annotations room @ [annotation]\<rparr>
           in Returns (rooms(code \<mapsto> room'), sock,
                [SaveRoomState code room', Emit (Some code) ''annotation-added'' [JObj annotation]])))"

definition danger_annotation :: "env \<Rightarrow> jsval \<Rightarrow> jsobj" where
  "danger_annotation e data =
     [(''id'', JStr (''danger_'' @ toString (int (dateNow e)))),
      (''type'', JStr ''danger''),
      (''position'', field data ''position''),
      (''radius'', js_or (field data ''radius'') (JNum 5)),
      (''label'', js_or (field data ''label'') (JStr ''Danger Zone'')),
      (''createdAt'', JStr (toISOString e 0))]"

definition add_danger_zone :: "socket \<Rightarrow> env \<Rightarrow> jsval \<Rightarrow> rooms \<Rightarrow> outcome result" where
  "add_danger_zone sock e data rooms = add_annotation data (danger_annotation e data) sock rooms"

definition arrow_annotation :: "env \<Rightarrow> jsval \<Rightarrow> jsobj" where
  "arrow_annotation e data =
     [(''id'', JStr (''arrow_'' @ toString (int (dateNow e)))),
      (''type'', JStr ''arrow''),
      (''start'', field data ''start''),
      (''end'', field data ''end''),
      (''label'', js_or (field data ''label'') (JStr ''Direction'')),
      (''createdAt'', JStr (toISOString e 0))]"

definition add_arrow :: "socket \<Rightarrow> env \<Rightarrow> jsval \<Rightarrow> rooms \<Rightarrow> outcome result" where
  "add_arrow sock e data rooms = add_annotation data (arrow_annotation e data) sock rooms"

definition incident_annotation :: "env \<Rightarrow> jsval \<Rightarrow> jsobj" where
  "incident_annotation e data =
     [(''id'', JStr (''incident_'' @ toString (int (dateNow e)))),
      (''type'', JStr ''incident''),
      (''position'', field data ''position''),
      (''date'', js_or (field data ''date'')
                   (JStr (takeWhile (\<lambda>c. c \<noteq> CHR ''T'') (toISOString e 0)))),
      (''description'', js_or (field data ''description'') (JStr ''Incident reported'')),
      (''severity'', js_or (field data ''severity'') (JStr ''medium'')),
      (''createdAt'', JStr (toISOString e (if truthy (field data ''date'') then 0 else 1)))]"

definition add_incident :: "socket \<Rightarrow> env \<Rightarrow> jsval \<Rightarrow> rooms \<Rightarrow> outcome result" where
  "add_incident sock e data rooms = add_annotation data (incident_annotation e data) sock rooms"

definition restricted_annotation :: "env \<Rightarrow> jsval \<Rightarrow> jsobj" where
  "restricted_annotation e data =
     [(''id'', JStr (''restricted_'' @ toString (int (dateNow e)))),
      (''type'', JStr ''restricted''),
      (''vertices'', field data ''vertices''),
      (''active'', if field data ''active'' \<noteq> JUndefined then field data ''active'' else JBool True),
      (''createdAt'', JStr (toISOString e 0))]"

definition add_restricted_zone :: "socket \<Rightarrow> env \<Rightarrow> jsval \<Rightarrow> rooms \<Rightarrow> outcome result" where
  "add_restricted_zone sock e data rooms =
     add_annotation data (restricted_annotation e data) sock rooms"

text \<open>\<^verbatim>\<open>socket.on('clear-annotations', (data) => ...)\<close>\<close>

definition clear_annotations :: "socket \<Rightarrow> jsval \<Rightarrow> rooms \<Rightarrow> outcome result" where
  "clear_annotations sock data rooms =
     (if nullish data then Throws TypeError (rooms, sock, [])
      else case rooms_get rooms (field data ''roomId'') of
        None \<Rightarrow> Returns (rooms, sock, [])
      | Some (code, room) \<Rightarrow>
          (let room' = room\<lparr>annotations := []\<rparr>
           in Returns (rooms(code \<mapsto> room'), sock,
                [SaveRoomState code room', Emit (Some code) ''annotations-cleared'' []])))"

text \<open>
  \<^verbatim>\<open>socket.on('remove-annotation', (data) => ...)\<close>, with
  \<^verbatim>\<open>room.annotations.filter(a => a.id !== data.annotationId)\<close>.
\<close>

definition remove_annotation :: "socket \<Rightarrow> jsval \<Rightarrow> rooms \<Rightarrow> outcome result" where
  "remove_annotation sock data rooms =
     (if nullish data then Throws TypeError (rooms, sock, [])
      else case rooms_get rooms (field data ''roomId'') of
        None \<Rightarrow> Returns (rooms, sock, [])
      | Some (code, room) \<Rightarrow>
          (let room' = room\<lparr>annotations :=
                 filter (\<lambda>a. \<not> strict_eq (obj_prop a ''id'') (field data ''annotationId''))
                   (annotations room)\<rparr>
           in Returns (rooms(code \<mapsto> room'), sock,
                [SaveRoomState code room',
                 Emit (Some code) ''annotation-removed''
                   [JObj [(''id'', field data ''annotationId'')]]])))"

text \<open>\<^verbatim>\<open>socket.on('disconnect', () => ...)\<close>\<close>

definition disconnect :: "socket \<Rightarrow> rooms \<Rightarrow> outcome result" where
  "disconnect sock rooms =
     (case roomId sock of
        None \<Rightarrow> Returns (rooms, sock, [])
      | Some code \<Rightarrow>
          if code = [] then Returns (rooms, sock, [])
          else case rooms code of
            None \<Rightarrow> Returns (rooms, sock, [])
          | Some room \<Rightarrow>
              if deviceType sock = Some Display then
                Returns (rooms(code \<mapsto> room\<lparr>displaySocket := None\<rparr>), sock,
                  if bound (controllerSocket room)
                  then [Emit (controllerSocket room) ''display-disconnected'' []] else [])
              else if deviceType sock = Some Controller then
                Returns (rooms(code \<mapsto> room\<lparr>controllerSocket := None\<rparr>), sock,
                  if bound (displaySocket room)
                  then [Emit (displaySocket room) ''controller-disconnected'' []] else [])
              else Returns (rooms, sock, []))"

text \<open>\<^verbatim>\<open>socket.on('reconnect-room', (data, callback) => ...)\<close>\<close>

definition reconnect_room :: "socket \<Rightarrow> jsval \<Rightarrow> callback \<Rightarrow> rooms \<Rightarrow> outcome result" where
  "reconnect_room sock data callback rooms =
     (if nullish data then Throws TypeError (rooms, sock, [])
      else case rooms_get rooms (field data ''roomId'') of
        Some (code, room) \<Rightarrow>
          if field data ''deviceType'' = JStr ''display'' \<and> \<not> bound (displaySocket room) then
            reply callback
              (JObj [(''success'', JBool True),
                     (''annotations'', annotations_js room),
                     (''hasController'', JBool (controllerSocket room \<noteq> None))])
              (rooms(code \<mapsto> room\<lparr>displaySocket := Some (socket_id sock)\<rparr>),
               sock\<lparr>roomId := Some code, deviceType := Some Display\<rparr>,
               [Join code])
          else if field data ''deviceType'' = JStr ''controller'' \<and> \<not> bound (controllerSocket room) then
            reply callback
              (JObj [(''success'', JBool True), (''annotations'', annotations_js room)])
              (rooms(code \<mapsto> room\<lparr>controllerSocket := Some (socket_id sock)\<rparr>),
               sock\<lparr>roomId := Some code, deviceType := Some Controller\<rparr>,
               Join code #
               (if bound (displaySocket room)
                then [Emit (displaySocket room) ''controller-connected'' []] else []))
          else
            reply callback
              (JObj [(''success'', JBool False),
                     (''error'', JStr ''Device type already connected'')])
              (rooms, sock, [])
      | None \<Rightarrow>
          reply callback (JObj [(''success'', JBool False), (''error'', JStr ''Room not found'')])
            (rooms, sock, []))"

section \<open>The server as a whole\<close>

text \<open>The events a connected socket can send, with their arguments.\<close>

datatype event =
    CreateRoom callback
  | JoinRoom jsval callback
  | TabletMovement jsval
  | TouchMovement jsval
  | ToggleFlashlight jsval
  | AddDangerZone jsval
  | AddArrow jsval
  | AddIncident jsval
  | AddRestrictedZone jsval
  | ClearAnnotations jsval
  | RemoveAnnotation jsval
  | CameraPosition jsval
  | RequestPlacement jsval
  | PlacementPosition jsval
  | Disconnect
  | ReconnectRoom jsval callback

fun handle :: "socket \<Rightarrow> env \<Rightarrow> event \<Rightarrow> rooms \<Rightarrow> outcome result" where
  "handle sock e (CreateRoom callback) rooms = create_room sock e callback rooms"
| "handle sock e (JoinRoom roomCode callback) rooms = join_room sock roomCode callback rooms"
| "handle sock e (TabletMovement data) rooms = tablet_movement sock data rooms"
| "handle sock e (TouchMovement data) rooms = touch_movement sock data rooms"
| "handle sock e (ToggleFlashlight data) rooms = toggle_flashlight sock data rooms"
| "handle sock e (AddDangerZone data) rooms = add_danger_zone sock e data rooms"
| "handle sock e (AddArrow data) rooms = add_arrow sock e data rooms"
| "handle sock e (AddIncident data) rooms = add_incident sock e data rooms"
| "handle sock e (AddRestrictedZone data) rooms = add_restricted_zone sock e data rooms"
| "handle sock e (ClearAnnotations data) rooms = clear_annotations sock data rooms"
| "handle sock e (RemoveAnnotation data) rooms = remove_annotation sock data rooms"
| "handle sock e (CameraPosition data) rooms = camera_position sock data rooms"
| "handle sock e (RequestPlacement data) rooms = request_placement sock data rooms"
| "handle sock e (PlacementPosition data) rooms = placement_position sock data rooms"
| "handle sock e Disconnect rooms = disconnect sock rooms"
| "handle sock e (ReconnectRoom data callback) rooms = reconnect_room sock data callback rooms"

text \<open>
  The process state: the room store and the connected sockets by id.
  \<^verbatim>\<open>io.on('connection', (socket) => ...)\<close> registers a socket with no room and no
  device type; an event is handled for a connected socket only, and a disconnected
  socket is gone.
\<close>

record server =
  store :: rooms
  sockets :: "string \<rightharpoonup> socket"

datatype action = Connection string | Message string env event

fun is_disconnect :: "event \<Rightarrow> bool" where
  "is_disconnect Disconnect = True"
| "is_disconnect _ = False"

fun step :: "server \<Rightarrow> action \<Rightarrow> (server \<times> effect list) result" where
  "step st (Connection sid) =
     Returns (st\<lparr>sockets := (sockets st)(sid \<mapsto>
                \<lparr>socket_id = sid, roomId = None, deviceType = None\<rparr>)\<rparr>, [])"
| "step st (Message sid e ev) =
     (case sockets st sid of
        None \<Rightarrow> Returns (st, [])
      | Some sock \<Rightarrow>
          (case handle sock e ev (store st) of
             Loops \<Rightarrow> Loops
           | Throws err (rooms', sock', effs) \<Rightarrow>
               Throws err (\<lparr>store = rooms', sockets = (sockets st)(sid \<mapsto> sock')\<rparr>, effs)
           | Returns (rooms', sock', effs) \<Rightarrow>
               Returns
                 (\<lparr>store = rooms',
                   sockets = (if is_disconnect ev then (sockets st)(sid := None)
                              else (sockets st)(sid \<mapsto> sock'))\<rparr>,
                  effs)))"

text \<open>
  A run handles the actions one after the other and keeps the effects of each. An
  uncaught exception ends the process, and the run with it.
\<close>

fun run :: "server \<Rightarrow> action list \<Rightarrow> (server \<times> effect list list) result" where
  "run st [] = Returns (st, [])"
| "run st (a # as) =
     (case step st a of
        Loops \<Rightarrow> Loops
      | Throws err (st', effs) \<Rightarrow> Throws err (st', [effs])
      | Returns (st', effs) \<Rightarrow>
          (case run st' as of
             Loops \<Rightarrow> Loops
           | Throws err (st'', logs) \<Rightarrow> Throws err (st'', effs # logs)
           | Returns (st'', logs) \<Rightarrow> Returns (st'', effs # logs)))"

text \<open>
  The code a \<^verbatim>\<open>create-room\<close> allocated is the room its socket joined; no other
  action allocates a code.
\<close>

fun joined :: "effect \<Rightarrow> string list" where
  "joined (Join code) = [code]"
| "joined _ = []"

fun issued :: "action \<Rightarrow> effect list \<Rightarrow> string list" where
  "issued (Message sid e (CreateRoom callback)) effs = concat (map joined effs)"
| "issued _ effs = []"

definition allocated :: "action list \<Rightarrow> effect list list \<Rightarrow> string list" where
  "allocated acts logs = concat (map (\<lambda>(a, effs). issued a effs) (zip acts logs))"

fun adds_annotation :: "event \<Rightarrow> bool" where
  "adds_annotation (AddDangerZone data) = True"
| "adds_annotation (AddArrow data) = True"
| "adds_annotation (AddIncident data) = True"
| "adds_annotation (AddRestrictedZone data) = True"
| "adds_annotation _ = False"

fun is_addition :: "action \<Rightarrow> bool" where
  "is_addition (Connection sid) = False"
| "is_addition (Message sid e ev) = adds_annotation ev"

text \<open>The acknowledgements among the effects of a call.\<close>

fun acks :: "effect list \<Rightarrow> jsval list" where
  "acks [] = []"
| "acks (Ack v # effs) = v # acks effs"
| "acks (_ # effs) = acks effs"

definition final_acks :: "(server \<times> effect list list) result \<Rightarrow> jsval list" where
  "final_acks r =
     (case r of
        Returns (st, logs) \<Rightarrow> (if logs = [] then [] else acks (last logs))
      | _ \<Rightarrow> [])"

text \<open>The 9000 codes the allocator draws from, and a room whose annotation sequence is empty.\<close>

definition code_space :: "string set" where
  "code_space = toString ` {1000..9999}"

definition cleared :: "rooms \<Rightarrow> string \<Rightarrow> bool" where
  "cleared rooms code = (case rooms code of None \<Rightarrow> False | Some room \<Rightarrow> annotations room = [])"

section \<open>Example inputs\<close>

definition exit_arrow :: jsobj where
  "exit_arrow =
     [(''id'', JStr ''arrow_1714557000000''), (''type'', JStr ''arrow''),
      (''start'', JArr [JNum 0, JNum 0, JNum 0]), (''end'', JArr [JNum 0, JNum 0, JNum (-10)]),
      (''label'', JStr ''Exit''), (''createdAt'', JStr ''2024-05-01T09:50:00.000Z'')]"

definition gas_danger :: jsobj where
  "gas_danger =
     [(''id'', JStr ''danger_1714557300000''), (''type'', JStr ''danger''),
      (''position'', JArr [JNum 4, JNum 0, JNum 8]), (''radius'', JNum 12),
      (''label'', JStr ''Gas leak''), (''createdAt'', JStr ''2024-05-01T09:55:00.000Z'')]"

definition room_4821 :: room where
  "room_4821 =
     \<lparr>displaySocket = Some ''display-A'', controllerSocket = Some ''controller-A'',
      annotations = [exit_arrow], createdAt = ''2024-05-01T09:40:00.000Z''\<rparr>"

definition store_4821 :: rooms where
  "store_4821 = Map.empty(''4821'' \<mapsto> room_4821)"

definition socket_A :: socket where
  "socket_A = \<lparr>socket_id = ''display-A'', roomId = Some ''4821'', deviceType = Some Display\<rparr>"

definition socket_B :: socket where
  "socket_B = \<lparr>socket_id = ''controller-B'', roomId = None, deviceType = None\<rparr>"

definition socket_C :: socket where
  "socket_C = \<lparr>socket_id = ''controller-A'', roomId = Some ''4821'', deviceType = Some Controller\<rparr>"

definition server_0 :: server where
  "server_0 =
     \<lparr>store = store_4821,
      sockets = Map.empty(''display-A'' \<mapsto> socket_A, ''controller-A'' \<mapsto> socket_C,
                          ''controller-B'' \<mapsto> socket_B)\<rparr>"

definition server_1 :: server where
  "server_1 =
     \<lparr>store = store_4821(''4821'' \<mapsto> room_4821\<lparr>controllerSocket := None\<rparr>),
      sockets = Map.empty(''display-A'' \<mapsto> socket_A, ''controller-B'' \<mapsto> socket_B)\<rparr>"

text \<open>
  Two sources of draws: one that gives 0 and then 1/2 for ever (the codes 1000, 5500,
  5500, ...), and one that walks through the code space (1000, 1001, ..., 9999, 1000,
  ...) with the doubles nearest to the midpoints of the intervals of the codes.
\<close>

definition zero_then_half :: "nat \<Rightarrow> rat" where
  "zero_then_half k = (if k = 0 then 0 else 1 / 2)"




definition env_0 :: env where
  "env_0 = \<lparr>mathRandom = zero_then_half, dateNow = 1714557600000,
            toISOString = (\<lambda>k. ''2024-05-01T10:00:00.000Z'')\<rparr>"

definition reconnect_data :: "string \<Rightarrow> string \<Rightarrow> jsval" where
  "reconnect_data code role = JObj [(''roomId'', JStr code), (''deviceType'', JStr role)]"

definition zero_radius_data :: jsval where
  "zero_radius_data =
     JObj [(''roomId'', JStr ''4821''), (''position'', JArr [JNum 1, JNum 0, JNum 2]),
           (''radius'', JNum 0), (''label'', JStr [])]"

definition defaulted_danger :: jsobj where
  "defaulted_danger =
     [(''id'', JStr ''danger_1714557600000''), (''type'', JStr ''danger''),
      (''position'', JArr [JNum 1, JNum 0, JNum 2]), (''radius'', JNum 5),
      (''label'', JStr ''Danger Zone''), (''createdAt'', JStr ''2024-05-01T10:00:00.000Z'')]"

section \<open>Decimal codes\<close>

lemma digit_value_digit_char: "d < 10 \<Longrightarrow> digit_value (digit_char d) = d"
proof -
  assume "d < 10"
  then have "d \<in> {0,1,2,3,4,5,6,7,8,9}" by auto
  then show ?thesis
    by (auto simp: digit_value_def digit_char_def)
qed

lemma is_digit_digit_char: "d < 10 \<Longrightarrow> is_digit (digit_char d)"
proof -
  assume "d < 10"
  then have "d \<in> {0,1,2,3,4,5,6,7,8,9}" by auto
  then show ?thesis
    by (auto simp: is_digit_def digit_char_def)
qed

lemma numeric_value_snoc:
  "numeric_value (s @ [c]) = 10 * numeric_value s + digit_value c"
  by (simp add: numeric_value_def)

lemma numeric_value_digits: "numeric_value (digits n) = n"
proof (induction n rule: digits.induct)
  case (1 n)
  show ?case
  proof (cases "n < 10")
    case True
    then show ?thesis
      by (subst digits.simps) (simp add: numeric_value_def digit_value_digit_char)
  next
    case False
    with 1 have "numeric_value (digits (n div 10)) = n div 10" by simp
    with False show ?thesis
      by (subst digits.simps) (simp add: numeric_value_snoc digit_value_digit_char)
  qed
qed

lemma digits_all_digits: "\<forall>c \<in> set (digits n). is_digit c"
proof (induction n rule: digits.induct)
  case (1 n)
  show ?case
  proof (cases "n < 10")
    case True
    then show ?thesis
      by (subst digits.simps) (simp add: is_digit_digit_char)
  next
    case False
    with 1 have "\<forall>c \<in> set (digits (n div 10)). is_digit c" by simp
    with False show ?thesis
      by (subst digits.simps) (simp add: is_digit_digit_char)
  qed
qed

lemma length_digits_lt10: "n < 10 \<Longrightarrow> length (digits n) = 1"
  by (subst digits.simps) simp

lemma length_digits_step: "10 \<le> n \<Longrightarrow> length (digits n) = Suc (length (digits (n div 10)))"
  by (subst digits.simps) simp

lemma length_digits_4:
  assumes "1000 \<le> n" and "n \<le> 9999"
  shows "length (digits n) = 4"
proof -
  have a: "10 \<le> n" using assms by simp
  have b: "10 \<le> n div 10" using assms by simp
  have c: "10 \<le> n div 10 div 10" using assms by simp
  have d: "n div 10 div 10 div 10 < 10" using assms by simp
  show ?thesis
    by (simp add: length_digits_step [OF a] length_digits_step [OF b]
        length_digits_step [OF c] length_digits_lt10 [OF d])
qed

section \<open>Rounding to the nearest double\<close>

lemma scale_down:
  assumes "0 < q" and "q < 2 ^ 53" and "- 1074 \<le> e" and "nat (e + 1074) \<le> n"
  shows "- 1074 \<le> scale n q e \<and> scale n q e \<le> e \<and>
         q * 2 powi (e - scale n q e) < 2 ^ 53 \<and>
         (scale n q e = - 1074 \<or> 2 ^ 52 \<le> q * 2 powi (e - scale n q e))"
  using assms
proof (induction n arbitrary: q e)
  case 0
  then have "e = - 1074" by simp
  with 0 show ?case by (subst (1 2 3 4 5) scale.simps) simp
next
  case (Suc n)
  show ?case
  proof (cases "q < 2 ^ 52 \<and> - 1074 < e")
    case True
    have ih: "- 1074 \<le> scale n (q * 2) (e - 1) \<and> scale n (q * 2) (e - 1) \<le> e - 1 \<and>
         q * 2 * 2 powi (e - 1 - scale n (q * 2) (e - 1)) < 2 ^ 53 \<and>
         (scale n (q * 2) (e - 1) = - 1074 \<or>
          2 ^ 52 \<le> q * 2 * 2 powi (e - 1 - scale n (q * 2) (e - 1)))"
      using Suc.prems True by (intro Suc.IH) simp_all
    have s: "scale (Suc n) q e = scale n (q * 2) (e - 1)"
      using Suc.prems True by (subst scale.simps) simp
    have p: "2 * 2 powi (e - 1 - k) = (2::rat) powi (e - k)" for k
      using power_int_add [of "2::rat" 1 "e - 1 - k"] by simp
    have "q * 2 * 2 powi (e - 1 - k) = q * 2 powi (e - k)" for k
      using p [of k] by (simp add: mult.assoc)
    with ih show ?thesis unfolding s by auto
  next
    case False
    have s: "scale (Suc n) q e = e"
      using Suc.prems False by (subst scale.simps) auto
    from False Suc.prems show ?thesis unfolding s by auto
  qed
qed

lemma ulp_exponent_spec:
  assumes "0 < x" and "x < 2 ^ 53"
  shows "- 1074 \<le> ulp_exponent x \<and> ulp_exponent x \<le> 0 \<and>
         x / 2 powi ulp_exponent x < 2 ^ 53 \<and>
         (ulp_exponent x = - 1074 \<or> 2 ^ 52 \<le> x / 2 powi ulp_exponent x)"
proof -
  have "x * 2 powi (0 - k) = x / 2 powi k" for k :: int
    by (simp add: power_int_minus field_simps)
  with scale_down [of x 0 2100] assms show ?thesis
    by (simp add: ulp_exponent_def)
qed

lemma round_half_even_nearest:
  "\<bar>of_int (round_half_even q) - q\<bar> \<le> \<bar>of_int n - q\<bar>"
proof -
  have f: "of_int \<lfloor>q\<rfloor> \<le> q" "q < of_int \<lfloor>q\<rfloor> + 1" by linarith+
  consider "n \<le> \<lfloor>q\<rfloor>" | "\<lfloor>q\<rfloor> + 1 \<le> n" by linarith
  then show ?thesis
  proof cases
    case 1
    then have "(of_int n :: rat) \<le> of_int \<lfloor>q\<rfloor>" by simp
    with f show ?thesis by (auto simp: round_half_even_def)
  next
    case 2
    then have "(of_int \<lfloor>q\<rfloor> :: rat) + 1 \<le> of_int n" by (metis of_int_1 of_int_add of_int_le_iff)
    with f show ?thesis by (auto simp: round_half_even_def)
  qed
qed

lemma round_half_even_bounds:
  assumes "0 \<le> q" and "q \<le> of_int b"
  shows "0 \<le> round_half_even q \<and> round_half_even q \<le> b"
proof -
  have f: "0 \<le> \<lfloor>q\<rfloor>" "\<lfloor>q\<rfloor> \<le> b" using assms by (simp_all add: floor_le_iff le_floor_iff)
  have "q - of_int \<lfloor>q\<rfloor> < 1 / 2 \<or> \<lfloor>q\<rfloor> < b"
  proof (rule ccontr)
    assume "\<not> ?thesis"
    then have "\<lfloor>q\<rfloor> = b" "\<not> q - of_int \<lfloor>q\<rfloor> < 1 / 2" using f by auto
    with assms show False by simp
  qed
  with f show ?thesis by (auto simp: round_half_even_def)
qed


lemma fl_pos:
  assumes "0 < x"
  shows "fl x = of_int (round_half_even (x / 2 powi ulp_exponent x)) * 2 powi ulp_exponent x"
  using assms by (simp add: fl_def)

lemma is_doubleI:
  assumes "\<bar>m\<bar> < 2 ^ 53" and "- 1074 \<le> e" and "e \<le> 971" and "x = of_int m * 2 powi e"
  shows "is_double x"
  using assms unfolding is_double_def by blast

lemma fl_is_double:
  assumes "0 < x" and "x < 2 ^ 53"
  shows "is_double (fl x)"
proof -
  let ?e = "ulp_exponent x"
  let ?q = "x / 2 powi ?e"
  let ?m = "round_half_even ?q"
  from ulp_exponent_spec [OF assms] have e: "- 1074 \<le> ?e" "?e \<le> 0" and q: "?q < 2 ^ 53" by simp_all
  have "0 \<le> ?q" using assms by simp
  moreover have "?q \<le> of_int (2 ^ 53)" using q by simp
  ultimately have m: "0 \<le> ?m" "?m \<le> 2 ^ 53" using round_half_even_bounds [of ?q "2 ^ 53"] by simp_all
  show ?thesis
  proof (cases "?m = 2 ^ 53")
    case True
    have "(2::rat) ^ 53 * 2 powi ?e = 2 ^ 52 * 2 powi (?e + 1)"
      using power_int_add [of "2::rat" ?e 1] by simp
    then have "fl x = of_int (2 ^ 52) * 2 powi (?e + 1)"
      by (simp add: fl_pos [OF assms(1)] True)
    then show ?thesis using e by (intro is_doubleI [of "2 ^ 52" "?e + 1"]) simp_all
  next
    case False
    with m have "\<bar>?m\<bar> < 2 ^ 53" by simp
    then show ?thesis using e fl_pos [OF assms(1)] by (intro is_doubleI [of ?m ?e]) simp_all
  qed
qed

lemma fl_nearest:
  assumes "0 < x" and "x < 2 ^ 53" and "is_double d"
  shows "\<bar>fl x - x\<bar> \<le> \<bar>d - x\<bar>"
proof -
  let ?e = "ulp_exponent x"
  let ?p = "(2::rat) powi ?e"
  let ?q = "x / ?p"
  let ?m = "round_half_even ?q"
  from ulp_exponent_spec [OF assms(1,2)]
  have e: "- 1074 \<le> ?e" and n: "?e = - 1074 \<or> 2 ^ 52 \<le> ?q" by simp_all
  have p: "0 < ?p" by simp
  have x: "x = ?q * ?p" using p by simp
  have grid: "\<bar>fl x - x\<bar> \<le> \<bar>of_int k * ?p - x\<bar>" for k :: int
  proof -
    have "\<bar>of_int j * ?p - x\<bar> = ?p * \<bar>of_int j - ?q\<bar>" for j :: int
    proof -
      have "of_int j * ?p - x = ?p * (of_int j - ?q)" using p by (simp add: field_simps)
      then show ?thesis using p by (simp add: abs_mult)
    qed
    then show ?thesis
      using round_half_even_nearest [of ?q k] p
      by (simp add: fl_pos [OF assms(1)])
  qed
  from assms(3) obtain m' e' where d: "\<bar>m'\<bar> < 2 ^ 53" "- 1074 \<le> e'" "d = of_int m' * 2 powi e'"
    unfolding is_double_def by blast
  show ?thesis
  proof (cases "?e \<le> e'")
    case True
    have "(2::rat) powi e' = 2 ^ nat (e' - ?e) * ?p"
      using power_int_add [of "2::rat" "e' - ?e" ?e] True by (simp add: power_int_def)
    then have "d = of_int (m' * 2 ^ nat (e' - ?e)) * ?p" by (simp add: d(3))
    with grid [of "m' * 2 ^ nat (e' - ?e)"] show ?thesis by simp
  next
    case False
    with e d(2) n have big: "2 ^ 52 \<le> ?q" by linarith
    then have g: "2 ^ 52 * ?p \<le> x" using p by (simp add: field_simps)
    have "(2::rat) powi e' \<le> 2 powi (?e - 1)"
      using False by (intro power_int_increasing) simp_all
    moreover have "2 * (2::rat) powi (?e - 1) = ?p"
      using power_int_add [of "2::rat" 1 "?e - 1"] by simp
    ultimately have pe: "2 * (2::rat) powi e' \<le> ?p" by simp
    have "d \<le> \<bar>of_int m'\<bar> * 2 powi e'"
      unfolding d(3) by (simp add: abs_le_D1 mult_right_mono)
    also have "\<dots> \<le> 2 ^ 53 * 2 powi e'"
    proof -
      from d(1) have "\<bar>m'\<bar> \<le> 2 ^ 53" by simp
      then have "(of_int \<bar>m'\<bar> :: rat) \<le> of_int (2 ^ 53)" by (simp only: of_int_le_iff)
      then have "\<bar>of_int m' :: rat\<bar> \<le> 2 ^ 53" by simp
      then show ?thesis by (simp add: mult_right_mono)
    qed
    also have "\<dots> \<le> 2 ^ 52 * ?p" using pe by simp
    finally have dg: "d \<le> 2 ^ 52 * ?p" .
    have "\<bar>fl x - x\<bar> \<le> \<bar>of_int (2 ^ 52) * ?p - x\<bar>" by (rule grid)
    also have "\<dots> = x - 2 ^ 52 * ?p" using g by simp
    also have "\<dots> \<le> x - d" using dg by simp
    also have "\<dots> \<le> \<bar>d - x\<bar>" by simp
    finally show ?thesis .
  qed
qed

lemma fl_zero: "fl 0 = 0"
  by (simp add: fl_def)

lemma is_double_zero: "is_double 0"
  by (rule is_doubleI [of 0 0]) simp_all

lemma fl_le:
  assumes "is_double c" and "0 \<le> x" and "x < 2 ^ 53" and "x \<le> c"
  shows "fl x \<le> c"
proof (cases "x = 0")
  case True
  with assms show ?thesis by (simp add: fl_zero)
next
  case False
  with assms have "0 < x" by simp
  from fl_nearest [OF this assms(3,1)] assms(4) show ?thesis by linarith
qed

lemma fl_ge:
  assumes "is_double c" and "0 \<le> x" and "x < 2 ^ 53" and "c \<le> x"
  shows "c \<le> fl x"
proof (cases "x = 0")
  case True
  with assms show ?thesis by (simp add: fl_zero)
next
  case False
  with assms have "0 < x" by simp
  from fl_nearest [OF this assms(3,1)] assms(4) show ?thesis by linarith
qed

lemma fl_id:
  assumes "is_double x" and "0 \<le> x" and "x < 2 ^ 53"
  shows "fl x = x"
  using fl_le [OF assms(1-3)] fl_ge [OF assms(1-3)] by simp

lemma double_on_grid:
  assumes "is_double d" and "2 powi k \<le> d"
  shows "\<exists>n::int. d = of_int n * 2 powi (k - 52)"
proof -
  from assms(1) obtain m e where d: "\<bar>m\<bar> < 2 ^ 53" "d = of_int m * 2 powi e"
    unfolding is_double_def by blast
  have "0 < d" using assms(2) by (rule less_le_trans [rotated]) simp
  moreover have "0 < (2::rat) powi e" by simp
  ultimately have mpos: "0 < m"
    unfolding d(2) by (simp add: zero_less_mult_iff not_less [symmetric] less_imp_le)
  from d(1) mpos have "m < 2 ^ 53" by simp
  then have "(of_int m :: rat) < of_int (2 ^ 53)" by (simp only: of_int_less_iff)
  then have "(of_int m :: rat) < 2 ^ 53" by simp
  then have "d < 2 ^ 53 * 2 powi e" unfolding d(2) by simp
  also have "\<dots> = 2 powi (53 + e)" using power_int_add [of "2::rat" 53 e] by simp
  finally have lt: "(2::rat) powi k < 2 powi (53 + e)" using assms(2) by simp
  have "k < 53 + e"
  proof (rule ccontr)
    assume "\<not> k < 53 + e"
    then have "(2::rat) powi (53 + e) \<le> 2 powi k" by (intro power_int_increasing) simp_all
    with lt show False by simp
  qed
  then have ge: "k - 52 \<le> e" by simp
  have "(2::rat) powi e = 2 ^ nat (e - (k - 52)) * 2 powi (k - 52)"
    using power_int_add [of "2::rat" "e - (k - 52)" "k - 52"] ge by (simp add: power_int_def)
  then have "d = of_int (m * 2 ^ nat (e - (k - 52))) * 2 powi (k - 52)" by (simp add: d(2))
  then show ?thesis by blast
qed

lemma double_on_fine_grid:
  assumes "is_double d" and "1 / 2 ^ j \<le> d"
  shows "\<exists>n::int. d = of_int n / 2 ^ (j + 52)"
proof -
  have "(2::rat) powi (- int j) = 1 / 2 ^ j"
    by (simp only: power_int_minus power_int_of_nat inverse_eq_divide)
  with assms(2) have "2 powi (- int j) \<le> d" by (simp only:)
  from double_on_grid [OF assms(1) this] obtain n :: int
    where n: "d = of_int n * 2 powi (- int j - 52)" by blast
  have "- int j - 52 = - int (j + 52)" by simp
  then have "(2::rat) powi (- int j - 52) = 1 / 2 ^ (j + 52)"
    by (simp only: power_int_minus power_int_of_nat inverse_eq_divide)
  with n have "d = of_int n / 2 ^ (j + 52)" by (simp only: times_divide_eq_right mult_1_right)
  then show ?thesis by blast
qed

lemma double_on_coarse_grid:
  assumes "is_double d" and "2 ^ j \<le> d" and "j \<le> 52"
  shows "\<exists>n::int. d = of_int n / 2 ^ (52 - j)"
proof -
  have "(2::rat) powi int j = 2 ^ j" by (simp only: power_int_of_nat)
  with assms(2) have "2 powi int j \<le> d" by (simp only:)
  from double_on_grid [OF assms(1) this] obtain n :: int
    where n: "d = of_int n * 2 powi (int j - 52)" by blast
  have "int j - 52 = - int (52 - j)" using assms(3) by simp
  then have "(2::rat) powi (int j - 52) = 1 / 2 ^ (52 - j)"
    by (simp only: power_int_minus power_int_of_nat inverse_eq_divide)
  with n have "d = of_int n / 2 ^ (52 - j)" by (simp only: times_divide_eq_right mult_1_right)
  then show ?thesis by blast
qed

lemma double_below_one:
  assumes "is_double r" and "r < 1"
  shows "r \<le> 1 - 1 / 2 ^ 53"
proof (cases "1 / 2 \<le> r")
  case False
  have "(1::rat) / 2 ^ 53 \<le> 1 / 2 ^ 1"
    by (intro divide_left_mono power_increasing) simp_all
  with False show ?thesis by simp
next
  case True
  define P :: rat where "P = 2 ^ 53"
  have P: "0 < P" by (simp add: P_def)
  from True have "1 / 2 ^ 1 \<le> r" by simp
  from double_on_fine_grid [OF assms(1) this] obtain n :: int where r: "r = of_int n / P"
    by (auto simp: P_def)
  with assms(2) P have "(of_int n :: rat) < P" by (simp add: pos_divide_less_eq)
  then have "n < 2 ^ 53" unfolding P_def by simp
  then have "n \<le> 2 ^ 53 - 1" by simp
  then have "(of_int n :: rat) \<le> of_int (2 ^ 53 - 1)" by (simp only: of_int_le_iff)
  then have "(of_int n :: rat) \<le> P - 1" by (simp add: P_def)
  then have "of_int n / P \<le> (P - 1) / P" using P by (simp add: divide_right_mono)
  also have "\<dots> = 1 - 1 / P" using P by (simp add: diff_divide_distrib)
  finally show ?thesis unfolding r P_def .
qed

lemma double_above_8999:
  assumes "is_double d" and "9000 - 1 / 2 ^ 39 < d"
  shows "9000 \<le> d"
proof -
  define P :: rat where "P = 2 ^ 39"
  have P: "0 < P" by (simp add: P_def)
  have "(2::rat) ^ 13 \<le> d" using assms(2) by simp
  from double_on_coarse_grid [OF assms(1) this] obtain n :: int where d: "d = of_int n / P"
    by (auto simp: P_def)
  from assms(2) have "(9000 * P - 1) / P < of_int n / P"
    using P unfolding d by (simp add: diff_divide_distrib P_def)
  then have "9000 * P - 1 < of_int n" using P by (simp add: divide_less_cancel)
  then have "(of_int (9000 * 2 ^ 39 - 1) :: rat) < of_int n" by (simp add: P_def)
  then have "9000 * 2 ^ 39 - 1 < n" by (simp only: of_int_less_iff)
  then have "9000 * 2 ^ 39 \<le> n" by simp
  then have "(of_int (9000 * 2 ^ 39) :: rat) \<le> of_int n" by (simp only: of_int_le_iff)
  then have "9000 * P \<le> of_int n" by (simp add: P_def)
  then show ?thesis using P unfolding d by (simp add: pos_le_divide_eq)
qed

text \<open>The doubles the range argument meets.\<close>

lemma is_double_1000: "is_double 1000"
  by (rule is_doubleI [of 1000 0]) simp_all

lemma is_double_8999: "is_double (9000 - 1 / 2 ^ 39)"
proof (rule is_doubleI [of "9000 * 2 ^ 39 - 1" "- 39"])
  show "(9000 - 1 / 2 ^ 39 :: rat) = of_int (9000 * 2 ^ 39 - 1) * 2 powi (- 39)"
    by (simp add: power_int_minus field_simps)
qed simp_all

lemma is_double_9999: "is_double (10000 - 1 / 2 ^ 39)"
proof (rule is_doubleI [of "10000 * 2 ^ 39 - 1" "- 39"])
  show "(10000 - 1 / 2 ^ 39 :: rat) = of_int (10000 * 2 ^ 39 - 1) * 2 powi (- 39)"
    by (simp add: power_int_minus field_simps)
qed simp_all

lemma product_range:
  assumes "is_double r" and "0 \<le> r" and "r < 1"
  shows "0 \<le> fl (r * 9000) \<and> fl (r * 9000) \<le> 9000 - 1 / 2 ^ 39"
proof -
  let ?x = "r * 9000"
  let ?a = "9000 - 1 / 2 ^ 39 :: rat"
  from double_below_one [OF assms(1,3)] have r: "r \<le> 1 - 1 / 2 ^ 53" .
  have x0: "0 \<le> ?x" using assms(2) by simp
  have xp: "?x \<le> 9000 - 9000 / 2 ^ 53" using r by simp
  have x53: "?x < 2 ^ 53" using xp by simp
  have lo: "0 \<le> fl ?x" by (rule fl_ge [OF is_double_zero x0 x53 x0])
  have hi: "fl ?x \<le> ?a"
  proof (cases "?x \<le> ?a")
    case True
    show ?thesis by (rule fl_le [OF is_double_8999 x0 x53 True])
  next
    case False
    then have xa: "?a < ?x" by simp
    then have xpos: "0 < ?x" by simp
    show ?thesis
    proof (rule ccontr)
      assume "\<not> fl ?x \<le> ?a"
      then have "?a < fl ?x" by simp
      from double_above_8999 [OF fl_is_double [OF xpos x53] this] have big: "9000 \<le> fl ?x" .
      from fl_nearest [OF xpos x53 is_double_8999] have "\<bar>fl ?x - ?x\<bar> \<le> \<bar>?a - ?x\<bar>" .
      with big xa have "9000 - ?x \<le> ?x - ?a" by linarith
      with xp show False by simp
    qed
  qed
  from lo hi show ?thesis ..
qed

lemma double_draw_range:
  assumes "is_double r" and "0 \<le> r" and "r < 1"
  shows "1000 \<le> \<lfloor>fl (1000 + fl (r * 9000))\<rfloor> \<and> \<lfloor>fl (1000 + fl (r * 9000))\<rfloor> \<le> 9999"
proof -
  let ?s = "1000 + fl (r * 9000)"
  from product_range [OF assms] have y: "0 \<le> fl (r * 9000)" "fl (r * 9000) \<le> 9000 - 1 / 2 ^ 39"
    by simp_all
  have s0: "0 \<le> ?s" and s53: "?s < 2 ^ 53" and lo: "1000 \<le> ?s"
    and hi: "?s \<le> 10000 - 1 / 2 ^ 39"
    using y by simp_all
  from fl_ge [OF is_double_1000 s0 s53 lo] have "1000 \<le> fl ?s" .
  then have a: "1000 \<le> \<lfloor>fl ?s\<rfloor>" by linarith
  from fl_le [OF is_double_9999 s0 s53 hi] have "fl ?s \<le> 10000 - 1 / 2 ^ 39" .
  then have "fl ?s < 10000" by simp
  then have "\<lfloor>fl ?s\<rfloor> < 10000" by linarith
  with a show ?thesis by simp
qed



section \<open>The allocation loop\<close>

lemma generateRoomCode_from_Some:
  assumes "generateRoomCode_from rnd rooms k = Some c"
  shows "\<exists>j\<ge>k. c = draw rnd j \<and> rooms c = None"
proof (rule generateRoomCode_from.raw_induct
    [where P = "\<lambda>rnd rooms k c. \<exists>j\<ge>k. c = draw rnd j \<and> rooms c = None", OF _ assms])
  fix gen :: "(nat \<Rightarrow> rat) \<Rightarrow> rooms \<Rightarrow> nat \<Rightarrow> string option"
  fix rnd rooms k c
  assume IH: "\<And>rnd rooms k c. gen rnd rooms k = Some c \<Longrightarrow> \<exists>j\<ge>k. c = draw rnd j \<and> rooms c = None"
    and body: "(if rooms (draw rnd k) \<noteq> None then gen rnd rooms (Suc k) else Some (draw rnd k)) = Some c"
  show "\<exists>j\<ge>k. c = draw rnd j \<and> rooms c = None"
  proof (cases "rooms (draw rnd k) = None")
    case True
    with body have "c = draw rnd k" by simp
    with True show ?thesis by auto
  next
    case False
    with body have "gen rnd rooms (Suc k) = Some c" by simp
    from IH [OF this] obtain j where "Suc k \<le> j" "c = draw rnd j" "rooms c = None" by blast
    then show ?thesis by (intro exI [of _ j]) simp
  qed
qed




lemma toString_digits: "0 \<le> i \<Longrightarrow> toString i = digits (nat i)"
  by (simp add: toString_def)



lemma finite_code_space: "finite code_space"
  by (simp add: code_space_def)


lemma draw_in_code_space:
  assumes "is_double (rnd k)" and "0 \<le> rnd k" and "rnd k < 1"
  shows "draw rnd k \<in> code_space"
proof -
  let ?i = "\<lfloor>fl (1000 + fl (rnd k * 9000))\<rfloor>"
  from double_draw_range [OF assms] have "?i \<in> {1000..9999}" by simp
  then have "toString ?i \<in> code_space" unfolding code_space_def by (rule imageI)
  then show ?thesis by (simp only: draw_def js_plus_def js_times_def)
qed




lemma code_space_shape:
  assumes "c \<in> code_space"
  shows "length c = 4 \<and> (\<forall>x\<in>set c. is_digit x) \<and> 1000 \<le> numeric_value c \<and> numeric_value c \<le> 9999"
proof -
  from assms obtain i :: int where i: "1000 \<le> i" "i \<le> 9999" and c: "c = toString i"
    by (auto simp: code_space_def)
  then have c': "c = digits (nat i)" by (simp add: toString_digits)
  have n: "1000 \<le> nat i" "nat i \<le> 9999" using i by linarith+
  show ?thesis
    using n by (simp add: c' length_digits_4 digits_all_digits numeric_value_digits)
qed

section \<open>Looking up a room\<close>

lemma rooms_get_Some_iff:
  "rooms_get rooms v = Some (code, room) \<longleftrightarrow> v = JStr code \<and> rooms code = Some room"
  by (auto simp: rooms_get_def split: jsval.splits option.splits)

lemma rooms_get_JStr:
  "rooms_get rooms (JStr code) =
     (case rooms code of None \<Rightarrow> None | Some room \<Rightarrow> Some (code, room))"
  by (simp add: rooms_get_def)

lemma field_not_nullish: "field data name = JStr s \<Longrightarrow> \<not> nullish data"
  by (auto simp: field_def nullish_def)


lemma reply_eq:
  "reply callback v (rooms, sock, effs) =
     (if uncallable callback then Throws TypeError (rooms, sock, effs)
      else Returns (rooms, sock, effs @ ack callback v))"
  by (simp add: reply_def)

section \<open>Joining a room\<close>

lemma join_room_existing:
  assumes "rooms code = Some room"
  shows "join_room sock (JStr code) callback rooms =
           (if uncallable callback
            then Throws TypeError
              (rooms(code \<mapsto> room\<lparr>controllerSocket := Some (socket_id sock)\<rparr>),
               sock\<lparr>roomId := Some code, deviceType := Some Controller\<rparr>,
               [Join code, Emit (displaySocket room) ''controller-connected'' []])
            else Returns
              (rooms(code \<mapsto> room\<lparr>controllerSocket := Some (socket_id sock)\<rparr>),
               sock\<lparr>roomId := Some code, deviceType := Some Controller\<rparr>,
               [Join code, Emit (displaySocket room) ''controller-connected'' []] @
               ack callback
                 (JObj [(''success'', JBool True), (''annotations'', annotations_js room)])))"
  using assms by (simp add: join_room_def rooms_get_JStr reply_eq)

lemma join_room_twice:
  assumes "store st code = Some room" and "sockets st s1 = Some sock1"
    and "sockets st s2 = Some sock2"
  shows "\<exists>st'. run st [Message s1 e1 (JoinRoom (JStr code) Function),
                        Message s2 e2 (JoinRoom (JStr code) Function)] =
           Returns (st',
             [[Join code, Emit (displaySocket room) ''controller-connected'' [],
               Ack (JObj [(''success'', JBool True), (''annotations'', annotations_js room)])],
              [Join code, Emit (displaySocket room) ''controller-connected'' [],
               Ack (JObj [(''success'', JBool True), (''annotations'', annotations_js room)])]]) \<and>
           store st' code = Some (room\<lparr>controllerSocket := Some (socket_id sock2)\<rparr>)"
  using assms
  by (cases "s1 = s2")
     (simp_all add: join_room_def rooms_get_JStr reply_eq annotations_js_def)

text \<open>
  Claim C1. A \<^verbatim>\<open>join-room\<close> whose code is a key of the store writes the joining
  socket into the controller slot of that room whatever the slot held, leaves the rest
  of the room and every other room as they were, joins the socket to the room and
  tells the display \<^verbatim>\<open>controller-connected\<close>. With an acknowledgement function it
  then acknowledges \<^verbatim>\<open>{success: true, annotations}\<close> carrying the room's
  annotations, and with none it returns without one; nothing is sent to an earlier
  controller and no failure is acknowledged. (A truthy argument that is not a function
  in the place of the callback makes the last statement throw, after the slot is
  written.) When two connected sockets join the same code one after the other, both
  are acknowledged with success and the slot holds the second.
\<close>

theorem join_room_last_joiner_wins:
  assumes "rooms code = Some room"
  shows "join_room sock (JStr code) callback rooms =
           (if uncallable callback
            then Throws TypeError
              (rooms(code \<mapsto> room\<lparr>controllerSocket := Some (socket_id sock)\<rparr>),
               sock\<lparr>roomId := Some code, deviceType := Some Controller\<rparr>,
               [Join code, Emit (displaySocket room) ''controller-connected'' []])
            else Returns
              (rooms(code \<mapsto> room\<lparr>controllerSocket := Some (socket_id sock)\<rparr>),
               sock\<lparr>roomId := Some code, deviceType := Some Controller\<rparr>,
               [Join code, Emit (displaySocket room) ''controller-connected'' []] @
               ack callback
                 (JObj [(''success'', JBool True), (''annotations'', annotations_js room)]))) \<and>
         (\<forall>st s1 s2 sock1 sock2 e1 e2.
            store st = rooms \<and> sockets st s1 = Some sock1 \<and> sockets st s2 = Some sock2 \<longrightarrow>
            (\<exists>st'. run st [Message s1 e1 (JoinRoom (JStr code) Function),
                           Message s2 e2 (JoinRoom (JStr code) Function)] =
               Returns (st',
                 [[Join code, Emit (displaySocket room) ''controller-connected'' [],
                   Ack (JObj [(''success'', JBool True), (''annotations'', annotations_js room)])],
                  [Join code, Emit (displaySocket room) ''controller-connected'' [],
                   Ack (JObj [(''success'', JBool True), (''annotations'', annotations_js room)])]]) \<and>
               store st' code = Some (room\<lparr>controllerSocket := Some (socket_id sock2)\<rparr>)))"
proof -
  have two: "\<forall>st s1 s2 sock1 sock2 e1 e2.
            store st = rooms \<and> sockets st s1 = Some sock1 \<and> sockets st s2 = Some sock2 \<longrightarrow>
            (\<exists>st'. run st [Message s1 e1 (JoinRoom (JStr code) Function),
                           Message s2 e2 (JoinRoom (JStr code) Function)] =
               Returns (st',
                 [[Join code, Emit (displaySocket room) ''controller-connected'' [],
                   Ack (JObj [(''success'', JBool True), (''annotations'', annotations_js room)])],
                  [Join code, Emit (displaySocket room) ''controller-connected'' [],
                   Ack (JObj [(''success'', JBool True), (''annotations'', annotations_js room)])]]) \<and>
               store st' code = Some (room\<lparr>controllerSocket := Some (socket_id sock2)\<rparr>))"
  proof (intro allI impI)
    fix st :: server and s1 s2 sock1 sock2 e1 e2
    assume h: "store st = rooms \<and> sockets st s1 = Some sock1 \<and> sockets st s2 = Some sock2"
    then have "store st code = Some room" using assms by simp
    with h join_room_twice [where st = st and code = code and room = room and ?s1.0 = s1
        and ?s2.0 = s2 and ?sock1.0 = sock1 and ?sock2.0 = sock2 and ?e1.0 = e1 and ?e2.0 = e2]
    show "\<exists>st'. run st [Message s1 e1 (JoinRoom (JStr code) Function),
                       Message s2 e2 (JoinRoom (JStr code) Function)] =
               Returns (st',
                 [[Join code, Emit (displaySocket room) ''controller-connected'' [],
                   Ack (JObj [(''success'', JBool True), (''annotations'', annotations_js room)])],
                  [Join code, Emit (displaySocket room) ''controller-connected'' [],
                   Ack (JObj [(''success'', JBool True), (''annotations'', annotations_js room)])]]) \<and>
               store st' code = Some (room\<lparr>controllerSocket := Some (socket_id sock2)\<rparr>)"
      by blast
  qed
  from join_room_existing [where rooms = rooms and code = code and room = room
      and sock = sock and callback = callback] assms two
  show ?thesis by (intro conjI) simp_all
qed

theorem join_room_last_joiner_wins_witness:
  "store_4821 ''4821'' = Some room_4821 \<and> controllerSocket room_4821 = Some ''controller-A'' \<and>
   join_room socket_B (JStr ''4821'') Function store_4821 =
     Returns
       (store_4821(''4821'' \<mapsto> room_4821\<lparr>controllerSocket := Some ''controller-B''\<rparr>),
        socket_B\<lparr>roomId := Some ''4821'', deviceType := Some Controller\<rparr>,
        [Join ''4821'', Emit (Some ''display-A'') ''controller-connected'' [],
         Ack (JObj [(''success'', JBool True), (''annotations'', JArr [JObj exit_arrow])])]) \<and>
   join_room socket_B (JStr ''4821'') (Value JUndefined) store_4821 =
     Returns
       (store_4821(''4821'' \<mapsto> room_4821\<lparr>controllerSocket := Some ''controller-B''\<rparr>),
        socket_B\<lparr>roomId := Some ''4821'', deviceType := Some Controller\<rparr>,
        [Join ''4821'', Emit (Some ''display-A'') ''controller-connected'' []]) \<and>
   (\<exists>st'. run server_0 [Message ''controller-A'' env_0 (JoinRoom (JStr ''4821'') Function),
                         Message ''controller-B'' env_0 (JoinRoom (JStr ''4821'') Function)] =
      Returns (st',
        [[Join ''4821'', Emit (Some ''display-A'') ''controller-connected'' [],
          Ack (JObj [(''success'', JBool True), (''annotations'', JArr [JObj exit_arrow])])],
         [Join ''4821'', Emit (Some ''display-A'') ''controller-connected'' [],
          Ack (JObj [(''success'', JBool True), (''annotations'', JArr [JObj exit_arrow])])]]) \<and>
      store st' ''4821'' = Some (room_4821\<lparr>controllerSocket := Some ''controller-B''\<rparr>))"
proof -
  have h: "store_4821 ''4821'' = Some room_4821" by (simp add: store_4821_def)
  have s: "store server_0 = store_4821 \<and> sockets server_0 ''controller-A'' = Some socket_C \<and>
           sockets server_0 ''controller-B'' = Some socket_B"
    by (simp add: server_0_def)
  note t = join_room_last_joiner_wins [where rooms = store_4821 and code = "''4821''"
      and room = room_4821 and sock = socket_B and callback = Function]
  note u = join_room_last_joiner_wins [where rooms = store_4821 and code = "''4821''"
      and room = room_4821 and sock = socket_B and callback = "Value JUndefined"]
  from t h have 1: "join_room socket_B (JStr ''4821'') Function store_4821 =
     Returns
       (store_4821(''4821'' \<mapsto> room_4821\<lparr>controllerSocket := Some ''controller-B''\<rparr>),
        socket_B\<lparr>roomId := Some ''4821'', deviceType := Some Controller\<rparr>,
        [Join ''4821'', Emit (Some ''display-A'') ''controller-connected'' [],
         Ack (JObj [(''success'', JBool True), (''annotations'', JArr [JObj exit_arrow])])])"
    by (simp add: room_4821_def socket_B_def annotations_js_def)
  from u h have 2: "join_room socket_B (JStr ''4821'') (Value JUndefined) store_4821 =
     Returns
       (store_4821(''4821'' \<mapsto> room_4821\<lparr>controllerSocket := Some ''controller-B''\<rparr>),
        socket_B\<lparr>roomId := Some ''4821'', deviceType := Some Controller\<rparr>,
        [Join ''4821'', Emit (Some ''display-A'') ''controller-connected'' []])"
    by (simp add: room_4821_def socket_B_def annotations_js_def)
  from t h s have "\<exists>st'. run server_0 [Message ''controller-A'' env_0 (JoinRoom (JStr ''4821'') Function),
                         Message ''controller-B'' env_0 (JoinRoom (JStr ''4821'') Function)] =
      Returns (st',
        [[Join ''4821'', Emit (displaySocket room_4821) ''controller-connected'' [],
          Ack (JObj [(''success'', JBool True), (''annotations'', annotations_js room_4821)])],
         [Join ''4821'', Emit (displaySocket room_4821) ''controller-connected'' [],
          Ack (JObj [(''success'', JBool True), (''annotations'', annotations_js room_4821)])]]) \<and>
      store st' ''4821'' = Some (room_4821\<lparr>controllerSocket := Some (socket_id socket_B)\<rparr>)"
    by blast
  then have 3: "\<exists>st'. run server_0 [Message ''controller-A'' env_0 (JoinRoom (JStr ''4821'') Function),
                         Message ''controller-B'' env_0 (JoinRoom (JStr ''4821'') Function)] =
      Returns (st',
        [[Join ''4821'', Emit (Some ''display-A'') ''controller-connected'' [],
          Ack (JObj [(''success'', JBool True), (''annotations'', JArr [JObj exit_arrow])])],
         [Join ''4821'', Emit (Some ''display-A'') ''controller-connected'' [],
          Ack (JObj [(''success'', JBool True), (''annotations'', JArr [JObj exit_arrow])])]]) \<and>
      store st' ''4821'' = Some (room_4821\<lparr>controllerSocket := Some ''controller-B''\<rparr>)"
    by (simp add: room_4821_def socket_B_def annotations_js_def)
  from h 1 2 3 show ?thesis by (simp add: room_4821_def)
qed

text \<open>
  Claim C3, as the code has it. A \<^verbatim>\<open>join-room\<close> whose code is not a key of the
  store (a string that is not allocated, or a value that is not a string at all) leaves
  the whole store and the socket as they were and has no effect but the
  acknowledgement: with an acknowledgement function it acknowledges
  \<^verbatim>\<open>{success: false, error: "Room not found"}\<close> and returns; with no callback, or a
  falsy value in its place, it returns without acknowledging; with a truthy value that
  is not a function in its place, calling it throws a TypeError.
\<close>

theorem join_room_unknown_code:
  assumes "rooms_get rooms roomCode = None"
  shows "join_room sock roomCode callback rooms =
           (if uncallable callback then Throws TypeError (rooms, sock, [])
            else Returns (rooms, sock,
              ack callback
                (JObj [(''success'', JBool False), (''error'', JStr ''Room not found'')])))"
  using assms by (simp add: join_room_def reply_eq)

theorem join_room_unknown_code_witness:
  "rooms_get store_4821 (JStr ''1234'') = None \<and>
   join_room socket_B (JStr ''1234'') Function store_4821 =
     Returns (store_4821, socket_B,
       [Ack (JObj [(''success'', JBool False), (''error'', JStr ''Room not found'')])]) \<and>
   join_room socket_B (JStr ''1234'') (Value JUndefined) store_4821 =
     Returns (store_4821, socket_B, [])"
proof -
  have h: "rooms_get store_4821 (JStr ''1234'') = None"
    by (simp add: store_4821_def rooms_get_def)
  from join_room_unknown_code [where rooms = store_4821 and roomCode = "JStr ''1234''"
      and sock = socket_B and callback = Function]
    join_room_unknown_code [where rooms = store_4821 and roomCode = "JStr ''1234''"
      and sock = socket_B and callback = "Value JUndefined"] h
  show ?thesis by simp
qed

text \<open>
  The claim as it is written fails on its second part: the client sends the string
  \<^verbatim>\<open>"x"\<close> where the acknowledgement function belongs, with a code that is not
  allocated, and the handler throws.
\<close>

theorem join_room_uncallable_counterexample:
  "rooms_get store_4821 (JStr ''1234'') = None \<and>
   join_room socket_B (JStr ''1234'') (Value (JStr ''x'')) store_4821 =
     Throws TypeError (store_4821, socket_B, [])"
  by (simp add: join_room_def reply_eq store_4821_def rooms_get_def)

section \<open>Reconnecting\<close>

text \<open>
  Claim C2. A \<^verbatim>\<open>reconnect-room\<close> for the role \<^verbatim>\<open>display\<close> or
  \<^verbatim>\<open>controller\<close>: when the room exists and the slot of that role is empty, the
  socket is written into the slot, joins the room and is acknowledged with success
  and the room's annotations (a display also learns whether a controller is bound; a
  controller's arrival is told to a bound display); when the slot is occupied the
  acknowledgement is the failure \<^verbatim>\<open>Device type already connected\<close> and store and
  socket stay as they were; when the code is not a key the acknowledgement is the
  failure \<^verbatim>\<open>Room not found\<close>, again with nothing changed. The acknowledgement is
  sent to an acknowledgement function and skipped when there is none. (A truthy
  argument that is not a function in the place of the callback makes the last
  statement throw.)
\<close>

theorem reconnect_room_cases:
  assumes "field data ''roomId'' = JStr code"
  shows "(rooms code = Some room \<and> field data ''deviceType'' = JStr ''display'' \<and>
            \<not> bound (displaySocket room) \<longrightarrow>
          reconnect_room sock data callback rooms =
            (if uncallable callback
             then Throws TypeError
               (rooms(code \<mapsto> room\<lparr>displaySocket := Some (socket_id sock)\<rparr>),
                sock\<lparr>roomId := Some code, deviceType := Some Display\<rparr>,
                [Join code])
             else Returns
               (rooms(code \<mapsto> room\<lparr>displaySocket := Some (socket_id sock)\<rparr>),
                sock\<lparr>roomId := Some code, deviceType := Some Display\<rparr>,
                Join code #
                ack callback
                  (JObj [(''success'', JBool True), (''annotations'', annotations_js room),
                         (''hasController'', JBool (controllerSocket room \<noteq> None))])))) \<and>
         (rooms code = Some room \<and> field data ''deviceType'' = JStr ''controller'' \<and>
            \<not> bound (controllerSocket room) \<longrightarrow>
          reconnect_room sock data callback rooms =
            (if uncallable callback
             then Throws TypeError
               (rooms(code \<mapsto> room\<lparr>controllerSocket := Some (socket_id sock)\<rparr>),
                sock\<lparr>roomId := Some code, deviceType := Some Controller\<rparr>,
                Join code #
                (if bound (displaySocket room)
                 then [Emit (displaySocket room) ''controller-connected'' []] else []))
             else Returns
               (rooms(code \<mapsto> room\<lparr>controllerSocket := Some (socket_id sock)\<rparr>),
                sock\<lparr>roomId := Some code, deviceType := Some Controller\<rparr>,
                Join code #
                (if bound (displaySocket room)
                 then [Emit (displaySocket room) ''controller-connected'' []] else []) @
                ack callback
                  (JObj [(''success'', JBool True), (''annotations'', annotations_js room)])))) \<and>
         (rooms code = Some room \<and>
            (field data ''deviceType'' = JStr ''display'' \<and> bound (displaySocket room) \<or>
             field data ''deviceType'' = JStr ''controller'' \<and> bound (controllerSocket room)) \<longrightarrow>
          reconnect_room sock data callback rooms =
            (if uncallable callback then Throws TypeError (rooms, sock, [])
             else Returns (rooms, sock,
               ack callback
                 (JObj [(''success'', JBool False),
                        (''error'', JStr ''Device type already connected'')])))) \<and>
         (rooms code = None \<longrightarrow>
          reconnect_room sock data callback rooms =
            (if uncallable callback then Throws TypeError (rooms, sock, [])
             else Returns (rooms, sock,
               ack callback
                 (JObj [(''success'', JBool False), (''error'', JStr ''Room not found'')]))))"
  using assms field_not_nullish [OF assms]
  by (auto simp: reconnect_room_def rooms_get_JStr reply_eq)

theorem reconnect_room_cases_witness:
  "reconnect_room socket_B (reconnect_data ''4821'' ''display'') Function
     (store_4821(''4821'' \<mapsto> room_4821\<lparr>displaySocket := None\<rparr>)) =
     Returns
       (store_4821(''4821'' \<mapsto> room_4821\<lparr>displaySocket := Some ''controller-B''\<rparr>),
        socket_B\<lparr>roomId := Some ''4821'', deviceType := Some Display\<rparr>,
        [Join ''4821'',
         Ack (JObj [(''success'', JBool True), (''annotations'', JArr [JObj exit_arrow]),
                    (''hasController'', JBool True)])]) \<and>
   reconnect_room socket_B (reconnect_data ''4821'' ''controller'') Function
     (store_4821(''4821'' \<mapsto> room_4821\<lparr>controllerSocket := None\<rparr>)) =
     Returns
       (store_4821(''4821'' \<mapsto> room_4821\<lparr>controllerSocket := Some ''controller-B''\<rparr>),
        socket_B\<lparr>roomId := Some ''4821'', deviceType := Some Controller\<rparr>,
        [Join ''4821'', Emit (Some ''display-A'') ''controller-connected'' [],
         Ack (JObj [(''success'', JBool True), (''annotations'', JArr [JObj exit_arrow])])]) \<and>
   reconnect_room socket_B (reconnect_data ''4821'' ''controller'') Function store_4821 =
     Returns (store_4821, socket_B,
       [Ack (JObj [(''success'', JBool False),
                   (''error'', JStr ''Device type already connected'')])]) \<and>
   reconnect_room socket_B (reconnect_data ''1234'' ''controller'') Function store_4821 =
     Returns (store_4821, socket_B,
       [Ack (JObj [(''success'', JBool False), (''error'', JStr ''Room not found'')])]) \<and>
   reconnect_room socket_B (reconnect_data ''1234'' ''controller'') (Value JUndefined) store_4821 =
     Returns (store_4821, socket_B, [])"
proof -
  have f: "field (reconnect_data c r) ''roomId'' = JStr c"
    "field (reconnect_data c r) ''deviceType'' = JStr r" for c r
    by (simp_all add: reconnect_data_def field_def obj_prop_def)
  note d = reconnect_room_cases [where data = "reconnect_data ''4821'' ''display''"
      and code = "''4821''" and callback = Function and sock = socket_B
      and rooms = "store_4821(''4821'' \<mapsto> room_4821\<lparr>displaySocket := None\<rparr>)"
      and room = "room_4821\<lparr>displaySocket := None\<rparr>", OF f(1)]
  note c = reconnect_room_cases [where data = "reconnect_data ''4821'' ''controller''"
      and code = "''4821''" and callback = Function and sock = socket_B
      and rooms = "store_4821(''4821'' \<mapsto> room_4821\<lparr>controllerSocket := None\<rparr>)"
      and room = "room_4821\<lparr>controllerSocket := None\<rparr>", OF f(1)]
  note b = reconnect_room_cases [where data = "reconnect_data ''4821'' ''controller''"
      and code = "''4821''" and callback = Function and sock = socket_B
      and rooms = store_4821 and room = room_4821, OF f(1)]
  note n = reconnect_room_cases [where data = "reconnect_data ''1234'' ''controller''"
      and code = "''1234''" and callback = Function and sock = socket_B
      and rooms = store_4821 and room = room_4821, OF f(1)]
  note u = reconnect_room_cases [where data = "reconnect_data ''1234'' ''controller''"
      and code = "''1234''" and callback = "Value JUndefined" and sock = socket_B
      and rooms = store_4821 and room = room_4821, OF f(1)]
  have 1: "reconnect_room socket_B (reconnect_data ''4821'' ''display'') Function
     (store_4821(''4821'' \<mapsto> room_4821\<lparr>displaySocket := None\<rparr>)) =
     Returns
       (store_4821(''4821'' \<mapsto> room_4821\<lparr>displaySocket := Some ''controller-B''\<rparr>),
        socket_B\<lparr>roomId := Some ''4821'', deviceType := Some Display\<rparr>,
        [Join ''4821'',
         Ack (JObj [(''success'', JBool True), (''annotations'', JArr [JObj exit_arrow]),
                    (''hasController'', JBool True)])])"
    using d by (simp add: f bound_def room_4821_def socket_B_def annotations_js_def)
  have 2: "reconnect_room socket_B (reconnect_data ''4821'' ''controller'') Function
     (store_4821(''4821'' \<mapsto> room_4821\<lparr>controllerSocket := None\<rparr>)) =
     Returns
       (store_4821(''4821'' \<mapsto> room_4821\<lparr>controllerSocket := Some ''controller-B''\<rparr>),
        socket_B\<lparr>roomId := Some ''4821'', deviceType := Some Controller\<rparr>,
        [Join ''4821'', Emit (Some ''display-A'') ''controller-connected'' [],
         Ack (JObj [(''success'', JBool True), (''annotations'', JArr [JObj exit_arrow])])])"
    using c by (simp add: f bound_def room_4821_def socket_B_def annotations_js_def)
  have 3: "reconnect_room socket_B (reconnect_data ''4821'' ''controller'') Function store_4821 =
     Returns (store_4821, socket_B,
       [Ack (JObj [(''success'', JBool False),
                   (''error'', JStr ''Device type already connected'')])])"
    using b by (simp add: f bound_def room_4821_def store_4821_def)
  have 4: "reconnect_room socket_B (reconnect_data ''1234'' ''controller'') Function store_4821 =
     Returns (store_4821, socket_B,
       [Ack (JObj [(''success'', JBool False), (''error'', JStr ''Room not found'')])])"
    using n by (simp add: store_4821_def)
  have 5: "reconnect_room socket_B (reconnect_data ''1234'' ''controller'') (Value JUndefined)
      store_4821 = Returns (store_4821, socket_B, [])"
    using u by (simp add: store_4821_def)
  from 1 2 3 4 5 show ?thesis by blast
qed

text \<open>
  Claim C10. A \<^verbatim>\<open>reconnect-room\<close> on an existing room whose device type is
  neither \<^verbatim>\<open>"display"\<close> nor \<^verbatim>\<open>"controller"\<close> (any other value, or none) falls
  into the last branch: the acknowledgement is the failure
  \<^verbatim>\<open>Device type already connected\<close>, whatever the two slots hold, and store and
  socket stay as they were. The acknowledgement is sent to an acknowledgement function
  and skipped when there is none. (A truthy argument that is not a function in the
  place of the callback makes the last statement throw.)
\<close>

theorem reconnect_room_unknown_device:
  assumes "field data ''roomId'' = JStr code" and "rooms code = Some room"
    and "field data ''deviceType'' \<noteq> JStr ''display''"
    and "field data ''deviceType'' \<noteq> JStr ''controller''"
  shows "reconnect_room sock data callback rooms =
           (if uncallable callback then Throws TypeError (rooms, sock, [])
            else Returns (rooms, sock,
              ack callback
                (JObj [(''success'', JBool False),
                       (''error'', JStr ''Device type already connected'')])))"
  using assms field_not_nullish [OF assms(1)]
  by (simp add: reconnect_room_def rooms_get_JStr reply_eq)

theorem reconnect_room_unknown_device_witness:
  "displaySocket (room_4821\<lparr>displaySocket := None, controllerSocket := None\<rparr>) = None \<and>
   controllerSocket (room_4821\<lparr>displaySocket := None, controllerSocket := None\<rparr>) = None \<and>
   reconnect_room socket_B (reconnect_data ''4821'' ''tablet'') Function
     (store_4821(''4821'' \<mapsto> room_4821\<lparr>displaySocket := None, controllerSocket := None\<rparr>)) =
     Returns
       (store_4821(''4821'' \<mapsto> room_4821\<lparr>displaySocket := None, controllerSocket := None\<rparr>),
        socket_B,
        [Ack (JObj [(''success'', JBool False),
                    (''error'', JStr ''Device type already connected'')])])"
proof -
  have f: "field (reconnect_data ''4821'' ''tablet'') ''roomId'' = JStr ''4821''"
    "field (reconnect_data ''4821'' ''tablet'') ''deviceType'' = JStr ''tablet''"
    by (simp_all add: reconnect_data_def field_def obj_prop_def)
  have r: "(store_4821(''4821'' \<mapsto> room_4821\<lparr>displaySocket := None, controllerSocket := None\<rparr>))
             ''4821'' = Some (room_4821\<lparr>displaySocket := None, controllerSocket := None\<rparr>)"
    by simp
  note t = reconnect_room_unknown_device [where data = "reconnect_data ''4821'' ''tablet''"
      and sock = socket_B and callback = Function and code = "''4821''"
      and rooms = "store_4821(''4821'' \<mapsto> room_4821\<lparr>displaySocket := None, controllerSocket := None\<rparr>)"
      and room = "room_4821\<lparr>displaySocket := None, controllerSocket := None\<rparr>"]
  from t f r show ?thesis by simp
qed

section \<open>Disconnecting\<close>

text \<open>
  Claim C8. The socket's own properties name its room and its role. When a socket
  bound as display in an existing room disconnects, the handler returns the store
  with only the display slot of that room set to \<^verbatim>\<open>null\<close>: the room is still a
  key, its controller slot, annotations and creation time are as before, and so is
  every other room; \<^verbatim>\<open>display-disconnected\<close> goes to the controller when one is
  bound, and nothing is sent otherwise. For a socket bound as controller the same
  holds with the roles exchanged and \<^verbatim>\<open>controller-disconnected\<close>.
\<close>

theorem disconnect_clears_own_slot:
  assumes "roomId sock = Some code" and "code \<noteq> []" and "rooms code = Some room"
  shows "(deviceType sock = Some Display \<longrightarrow>
          disconnect sock rooms =
            Returns (rooms(code \<mapsto> room\<lparr>displaySocket := None\<rparr>), sock,
              if bound (controllerSocket room)
              then [Emit (controllerSocket room) ''display-disconnected'' []] else []) \<and>
          controllerSocket (room\<lparr>displaySocket := None\<rparr>) = controllerSocket room \<and>
          annotations (room\<lparr>displaySocket := None\<rparr>) = annotations room \<and>
          createdAt (room\<lparr>displaySocket := None\<rparr>) = createdAt room) \<and>
         (deviceType sock = Some Controller \<longrightarrow>
          disconnect sock rooms =
            Returns (rooms(code \<mapsto> room\<lparr>controllerSocket := None\<rparr>), sock,
              if bound (displaySocket room)
              then [Emit (displaySocket room) ''controller-disconnected'' []] else []) \<and>
          displaySocket (room\<lparr>controllerSocket := None\<rparr>) = displaySocket room \<and>
          annotations (room\<lparr>controllerSocket := None\<rparr>) = annotations room \<and>
          createdAt (room\<lparr>controllerSocket := None\<rparr>) = createdAt room)"
  using assms by (simp add: disconnect_def)

theorem disconnect_clears_own_slot_witness:
  "disconnect socket_A store_4821 =
     Returns (store_4821(''4821'' \<mapsto> room_4821\<lparr>displaySocket := None\<rparr>), socket_A,
       [Emit (Some ''controller-A'') ''display-disconnected'' []]) \<and>
   disconnect socket_C store_4821 =
     Returns (store_4821(''4821'' \<mapsto> room_4821\<lparr>controllerSocket := None\<rparr>), socket_C,
       [Emit (Some ''display-A'') ''controller-disconnected'' []]) \<and>
   disconnect socket_A (store_4821(''4821'' \<mapsto> room_4821\<lparr>controllerSocket := None\<rparr>)) =
     Returns (store_4821(''4821'' \<mapsto> room_4821\<lparr>controllerSocket := None, displaySocket := None\<rparr>),
       socket_A, [])"
proof -
  have h: "store_4821 ''4821'' = Some room_4821" by (simp add: store_4821_def)
  have a: "roomId socket_A = Some ''4821''" "deviceType socket_A = Some Display"
    by (simp_all add: socket_A_def)
  have c: "roomId socket_C = Some ''4821''" "deviceType socket_C = Some Controller"
    by (simp_all add: socket_C_def)
  have n: "''4821'' \<noteq> []" by simp
  have h': "(store_4821(''4821'' \<mapsto> room_4821\<lparr>controllerSocket := None\<rparr>)) ''4821'' =
              Some (room_4821\<lparr>controllerSocket := None\<rparr>)" by simp
  from disconnect_clears_own_slot [where sock = socket_A and code = "''4821''"
      and rooms = store_4821 and room = room_4821] a n h
  have 1: "disconnect socket_A store_4821 =
     Returns (store_4821(''4821'' \<mapsto> room_4821\<lparr>displaySocket := None\<rparr>), socket_A,
       [Emit (Some ''controller-A'') ''display-disconnected'' []])"
    by (simp add: room_4821_def bound_def)
  from disconnect_clears_own_slot [where sock = socket_C and code = "''4821''"
      and rooms = store_4821 and room = room_4821] c n h
  have 2: "disconnect socket_C store_4821 =
     Returns (store_4821(''4821'' \<mapsto> room_4821\<lparr>controllerSocket := None\<rparr>), socket_C,
       [Emit (Some ''display-A'') ''controller-disconnected'' []])"
    by (simp add: room_4821_def bound_def)
  from disconnect_clears_own_slot [where sock = socket_A and code = "''4821''"
      and rooms = "store_4821(''4821'' \<mapsto> room_4821\<lparr>controllerSocket := None\<rparr>)"
      and room = "room_4821\<lparr>controllerSocket := None\<rparr>"] a n h'
  have 3: "disconnect socket_A (store_4821(''4821'' \<mapsto> room_4821\<lparr>controllerSocket := None\<rparr>)) =
     Returns (store_4821(''4821'' \<mapsto> room_4821\<lparr>controllerSocket := None, displaySocket := None\<rparr>),
       socket_A, [])"
    by (simp add: room_4821_def bound_def)
  from 1 2 3 show ?thesis by blast
qed

section \<open>Annotations\<close>

lemma add_annotation_existing:
  assumes "field data ''roomId'' = JStr code" and "rooms code = Some room"
  shows "add_annotation data annotation sock rooms =
           Returns
             (rooms(code \<mapsto> room\<lparr>annotations := annotations room @ [annotation]\<rparr>), sock,
              [SaveRoomState code (room\<lparr>annotations := annotations room @ [annotation]\<rparr>),
               Emit (Some code) ''annotation-added'' [JObj annotation]])"
  using assms field_not_nullish [OF assms(1)]
  by (simp add: add_annotation_def rooms_get_JStr Let_def)

lemma danger_annotation_radius:
  "obj_prop (danger_annotation e data) ''radius'' = js_or (field data ''radius'') (JNum 5)"
  by (simp add: danger_annotation_def obj_prop_def)

lemma danger_annotation_label:
  "obj_prop (danger_annotation e data) ''label'' =
     js_or (field data ''label'') (JStr ''Danger Zone'')"
  by (simp add: danger_annotation_def obj_prop_def)

text \<open>
  Claim C5, as the code has it. An \<^verbatim>\<open>add-danger-zone\<close> on an existing room appends
  one annotation, saves the room and broadcasts the annotation. Its radius is the
  supplied one when that is truthy and 5 otherwise; its label is the supplied one when
  that is truthy and \<^verbatim>\<open>"Danger Zone"\<close> otherwise. So an absent radius gives 5, an
  absent label gives \<^verbatim>\<open>"Danger Zone"\<close>, and a supplied non-zero number or
  non-empty string is stored as it is; a supplied falsy value (0, the empty string,
  \<^verbatim>\<open>null\<close>, \<^verbatim>\<open>false\<close>, \<^verbatim>\<open>NaN\<close>) is replaced by the default like an absent one.
\<close>

theorem add_danger_zone_defaults:
  assumes "field data ''roomId'' = JStr code" and "rooms code = Some room"
  shows "add_danger_zone sock e data rooms =
           Returns
             (rooms(code \<mapsto> room\<lparr>annotations := annotations room @ [danger_annotation e data]\<rparr>),
              sock,
              [SaveRoomState code
                 (room\<lparr>annotations := annotations room @ [danger_annotation e data]\<rparr>),
               Emit (Some code) ''annotation-added'' [JObj (danger_annotation e data)]]) \<and>
         obj_prop (danger_annotation e data) ''radius'' =
           (if truthy (field data ''radius'') then field data ''radius'' else JNum 5) \<and>
         obj_prop (danger_annotation e data) ''label'' =
           (if truthy (field data ''label'') then field data ''label'' else JStr ''Danger Zone'') \<and>
         (field data ''radius'' = JUndefined \<longrightarrow>
            obj_prop (danger_annotation e data) ''radius'' = JNum 5) \<and>
         (field data ''label'' = JUndefined \<longrightarrow>
            obj_prop (danger_annotation e data) ''label'' = JStr ''Danger Zone'') \<and>
         (\<forall>x. field data ''radius'' = JNum x \<and> x \<noteq> 0 \<longrightarrow>
            obj_prop (danger_annotation e data) ''radius'' = JNum x) \<and>
         (\<forall>s. field data ''label'' = JStr s \<and> s \<noteq> [] \<longrightarrow>
            obj_prop (danger_annotation e data) ''label'' = JStr s)"
  using add_annotation_existing [where annotation = "danger_annotation e data"
      and data = data and code = code and rooms = rooms and room = room and sock = sock] assms
  by (simp add: add_danger_zone_def danger_annotation_radius danger_annotation_label js_or_def)

theorem add_danger_zone_defaults_witness:
  "add_danger_zone socket_C env_0
     (JObj [(''roomId'', JStr ''4821''), (''position'', JArr [JNum 4, JNum 0, JNum 8]),
            (''radius'', JNum 12), (''label'', JStr ''Gas leak'')]) store_4821 =
     Returns
       (store_4821(''4821'' \<mapsto> room_4821\<lparr>annotations := [exit_arrow,
           [(''id'', JStr ''danger_1714557600000''), (''type'', JStr ''danger''),
            (''position'', JArr [JNum 4, JNum 0, JNum 8]), (''radius'', JNum 12),
            (''label'', JStr ''Gas leak''), (''createdAt'', JStr ''2024-05-01T10:00:00.000Z'')]]\<rparr>),
        socket_C,
        [SaveRoomState ''4821'' (room_4821\<lparr>annotations := [exit_arrow,
           [(''id'', JStr ''danger_1714557600000''), (''type'', JStr ''danger''),
            (''position'', JArr [JNum 4, JNum 0, JNum 8]), (''radius'', JNum 12),
            (''label'', JStr ''Gas leak''), (''createdAt'', JStr ''2024-05-01T10:00:00.000Z'')]]\<rparr>),
         Emit (Some ''4821'') ''annotation-added''
           [JObj [(''id'', JStr ''danger_1714557600000''), (''type'', JStr ''danger''),
            (''position'', JArr [JNum 4, JNum 0, JNum 8]), (''radius'', JNum 12),
            (''label'', JStr ''Gas leak''), (''createdAt'', JStr ''2024-05-01T10:00:00.000Z'')]]]) \<and>
   obj_prop (danger_annotation env_0
     (JObj [(''roomId'', JStr ''4821''), (''position'', JArr [JNum 4, JNum 0, JNum 8])]))
     ''radius'' = JNum 5 \<and>
   obj_prop (danger_annotation env_0
     (JObj [(''roomId'', JStr ''4821''), (''position'', JArr [JNum 4, JNum 0, JNum 8])]))
     ''label'' = JStr ''Danger Zone''"
proof -
  let ?full = "JObj [(''roomId'', JStr ''4821''), (''position'', JArr [JNum 4, JNum 0, JNum 8]),
            (''radius'', JNum 12), (''label'', JStr ''Gas leak'')]"
  let ?bare = "JObj [(''roomId'', JStr ''4821''), (''position'', JArr [JNum 4, JNum 0, JNum 8])]"
  have h: "store_4821 ''4821'' = Some room_4821" by (simp add: store_4821_def)
  have f: "field ?full ''roomId'' = JStr ''4821''" "field ?bare ''roomId'' = JStr ''4821''"
    "field ?bare ''radius'' = JUndefined" "field ?bare ''label'' = JUndefined"
    by (simp_all add: field_def obj_prop_def)
  have a: "danger_annotation env_0 ?full =
           [(''id'', JStr ''danger_1714557600000''), (''type'', JStr ''danger''),
            (''position'', JArr [JNum 4, JNum 0, JNum 8]), (''radius'', JNum 12),
            (''label'', JStr ''Gas leak''), (''createdAt'', JStr ''2024-05-01T10:00:00.000Z'')]"
    by (simp add: danger_annotation_def env_0_def field_def obj_prop_def js_or_def
        toString_def digits.simps digit_char_def)
  from add_danger_zone_defaults [where data = ?full and code = "''4821''" and rooms = store_4821
      and room = room_4821 and sock = socket_C and e = env_0] f(1) h
  have 1: "add_danger_zone socket_C env_0 ?full store_4821 =
     Returns
       (store_4821(''4821'' \<mapsto> room_4821\<lparr>annotations := annotations room_4821 @
           [danger_annotation env_0 ?full]\<rparr>),
        socket_C,
        [SaveRoomState ''4821'' (room_4821\<lparr>annotations := annotations room_4821 @
           [danger_annotation env_0 ?full]\<rparr>),
         Emit (Some ''4821'') ''annotation-added'' [JObj (danger_annotation env_0 ?full)]])"
    by blast
  from add_danger_zone_defaults [where data = ?bare and code = "''4821''" and rooms = store_4821
      and room = room_4821 and sock = socket_C and e = env_0] f h
  have 2: "obj_prop (danger_annotation env_0 ?bare) ''radius'' = JNum 5"
    "obj_prop (danger_annotation env_0 ?bare) ''label'' = JStr ''Danger Zone''"
    by blast+
  have r: "annotations room_4821 = [exit_arrow]" by (simp add: room_4821_def)
  from 1 2 show ?thesis unfolding a r by simp
qed

text \<open>
  The claim as it is written fails where a falsy value is supplied: a radius of 0 and
  an empty label are supplied, and the stored annotation has radius 5 and label
  \<^verbatim>\<open>"Danger Zone"\<close>.
\<close>

theorem add_danger_zone_falsy_counterexample:
  "field zero_radius_data ''radius'' = JNum 0 \<and> field zero_radius_data ''label'' = JStr [] \<and>
   add_danger_zone socket_C env_0 zero_radius_data store_4821 =
     Returns
       (store_4821(''4821'' \<mapsto> room_4821\<lparr>annotations := [exit_arrow, defaulted_danger]\<rparr>),
        socket_C,
        [SaveRoomState ''4821'' (room_4821\<lparr>annotations := [exit_arrow, defaulted_danger]\<rparr>),
         Emit (Some ''4821'') ''annotation-added'' [JObj defaulted_danger]]) \<and>
   obj_prop defaulted_danger ''radius'' = JNum 5 \<and>
   obj_prop defaulted_danger ''label'' = JStr ''Danger Zone''"
proof -
  have f: "field zero_radius_data ''roomId'' = JStr ''4821''"
    "field zero_radius_data ''radius'' = JNum 0" "field zero_radius_data ''label'' = JStr []"
    "field zero_radius_data ''position'' = JArr [JNum 1, JNum 0, JNum 2]"
    by (simp_all add: zero_radius_data_def field_def obj_prop_def)
  have h: "store_4821 ''4821'' = Some room_4821" by (simp add: store_4821_def)
  have a: "danger_annotation env_0 zero_radius_data = defaulted_danger"
    by (simp add: danger_annotation_def defaulted_danger_def env_0_def f js_or_def
        toString_def digits.simps digit_char_def)
  have r: "annotations room_4821 = [exit_arrow]" by (simp add: room_4821_def)
  have "add_danger_zone socket_C env_0 zero_radius_data store_4821 =
     Returns
       (store_4821(''4821'' \<mapsto> room_4821\<lparr>annotations := [exit_arrow, defaulted_danger]\<rparr>),
        socket_C,
        [SaveRoomState ''4821'' (room_4821\<lparr>annotations := [exit_arrow, defaulted_danger]\<rparr>),
         Emit (Some ''4821'') ''annotation-added'' [JObj defaulted_danger]])"
    using add_annotation_existing [where annotation = defaulted_danger
      and data = zero_radius_data and code = "''4821''" and rooms = store_4821
      and room = room_4821 and sock = socket_C] f(1) h
    by (simp add: add_danger_zone_def a r)
  moreover have "obj_prop defaulted_danger ''radius'' = JNum 5"
    "obj_prop defaulted_danger ''label'' = JStr ''Danger Zone''"
    by (simp_all add: defaulted_danger_def obj_prop_def)
  ultimately show ?thesis using f by simp
qed

lemma strict_eq_JStr: "strict_eq (JStr s) b \<longleftrightarrow> JStr s = b"
  by auto

lemma remove_annotation_existing:
  assumes "field data ''roomId'' = JStr code" and "rooms code = Some room"
  shows "remove_annotation sock data rooms =
           Returns
             (rooms(code \<mapsto> room\<lparr>annotations :=
                filter (\<lambda>a. \<not> strict_eq (obj_prop a ''id'') (field data ''annotationId''))
                  (annotations room)\<rparr>),
              sock,
              [SaveRoomState code (room\<lparr>annotations :=
                 filter (\<lambda>a. \<not> strict_eq (obj_prop a ''id'') (field data ''annotationId''))
                   (annotations room)\<rparr>),
               Emit (Some code) ''annotation-removed''
                 [JObj [(''id'', field data ''annotationId'')]]])"
  using assms field_not_nullish [OF assms(1)]
  by (simp add: remove_annotation_def rooms_get_JStr Let_def)

lemma filter_string_ids:
  assumes "list_all (\<lambda>a. \<exists>s. obj_prop a ''id'' = JStr s) anns"
  shows "filter (\<lambda>a. \<not> strict_eq (obj_prop a ''id'') v) anns =
         filter (\<lambda>a. obj_prop a ''id'' \<noteq> v) anns"
  using assms by (induction anns) (auto simp: strict_eq_JStr)

text \<open>
  Claim C6. A \<^verbatim>\<open>remove-annotation\<close> on an existing room returns the store in which
  that room's annotations are those whose id is not strictly equal to the given one,
  in their old order (a subsequence of the old sequence); the room is saved and
  \<^verbatim>\<open>annotation-removed\<close> with the given id is broadcast to the room. The ids the
  server gives are strings, and for a sequence of such annotations the survivors are
  the annotations whose id differs from the given value. When no annotation has the
  given id the sequence is the old one, and the save and the broadcast are the same.
\<close>

theorem remove_annotation_filters:
  assumes "field data ''roomId'' = JStr code" and "rooms code = Some room"
  shows "\<exists>kept.
           remove_annotation sock data rooms =
             Returns
               (rooms(code \<mapsto> room\<lparr>annotations := kept\<rparr>), sock,
                [SaveRoomState code (room\<lparr>annotations := kept\<rparr>),
                 Emit (Some code) ''annotation-removed''
                   [JObj [(''id'', field data ''annotationId'')]]]) \<and>
           kept = filter (\<lambda>a. \<not> strict_eq (obj_prop a ''id'') (field data ''annotationId''))
                    (annotations room) \<and>
           subseq kept (annotations room) \<and>
           (list_all (\<lambda>a. \<exists>s. obj_prop a ''id'' = JStr s) (annotations room) \<longrightarrow>
              kept = filter (\<lambda>a. obj_prop a ''id'' \<noteq> field data ''annotationId'')
                       (annotations room)) \<and>
           (list_all (\<lambda>a. \<not> strict_eq (obj_prop a ''id'') (field data ''annotationId''))
              (annotations room) \<longrightarrow> kept = annotations room)"
proof -
  let ?kept = "filter (\<lambda>a. \<not> strict_eq (obj_prop a ''id'') (field data ''annotationId''))
                 (annotations room)"
  have "subseq ?kept (annotations room)" by simp
  moreover have "list_all (\<lambda>a. \<exists>s. obj_prop a ''id'' = JStr s) (annotations room) \<longrightarrow>
      ?kept = filter (\<lambda>a. obj_prop a ''id'' \<noteq> field data ''annotationId'') (annotations room)"
    by (simp add: filter_string_ids)
  moreover have "list_all (\<lambda>a. \<not> strict_eq (obj_prop a ''id'') (field data ''annotationId''))
      (annotations room) \<longrightarrow> ?kept = annotations room"
    by (simp add: list_all_iff)
  ultimately show ?thesis
    using remove_annotation_existing [OF assms(1), where rooms = rooms and room = room
        and sock = sock] assms(2)
    by blast
qed

theorem remove_annotation_filters_witness:
  "remove_annotation socket_C
     (JObj [(''roomId'', JStr ''4821''), (''annotationId'', JStr ''arrow_1714557000000'')])
     (store_4821(''4821'' \<mapsto> room_4821\<lparr>annotations := [exit_arrow, gas_danger]\<rparr>)) =
     Returns
       (store_4821(''4821'' \<mapsto> room_4821\<lparr>annotations := [gas_danger]\<rparr>), socket_C,
        [SaveRoomState ''4821'' (room_4821\<lparr>annotations := [gas_danger]\<rparr>),
         Emit (Some ''4821'') ''annotation-removed''
           [JObj [(''id'', JStr ''arrow_1714557000000'')]]]) \<and>
   remove_annotation socket_C
     (JObj [(''roomId'', JStr ''4821''), (''annotationId'', JStr ''arrow_0'')])
     (store_4821(''4821'' \<mapsto> room_4821\<lparr>annotations := [exit_arrow, gas_danger]\<rparr>)) =
     Returns
       (store_4821(''4821'' \<mapsto> room_4821\<lparr>annotations := [exit_arrow, gas_danger]\<rparr>), socket_C,
        [SaveRoomState ''4821'' (room_4821\<lparr>annotations := [exit_arrow, gas_danger]\<rparr>),
         Emit (Some ''4821'') ''annotation-removed'' [JObj [(''id'', JStr ''arrow_0'')]]])"
proof -
  let ?two = "room_4821\<lparr>annotations := [exit_arrow, gas_danger]\<rparr>"
  let ?d1 = "JObj [(''roomId'', JStr ''4821''), (''annotationId'', JStr ''arrow_1714557000000'')]"
  let ?d2 = "JObj [(''roomId'', JStr ''4821''), (''annotationId'', JStr ''arrow_0'')]"
  have h: "(store_4821(''4821'' \<mapsto> ?two)) ''4821'' = Some ?two" by simp
  have f: "field ?d1 ''roomId'' = JStr ''4821''" "field ?d2 ''roomId'' = JStr ''4821''"
    "field ?d1 ''annotationId'' = JStr ''arrow_1714557000000''"
    "field ?d2 ''annotationId'' = JStr ''arrow_0''"
    by (simp_all add: field_def obj_prop_def)
  have i: "obj_prop exit_arrow ''id'' = JStr ''arrow_1714557000000''"
    "obj_prop gas_danger ''id'' = JStr ''danger_1714557300000''"
    by (simp_all add: exit_arrow_def gas_danger_def obj_prop_def)
  from remove_annotation_filters [where data = ?d1 and code = "''4821''" and sock = socket_C
      and rooms = "store_4821(''4821'' \<mapsto> ?two)" and room = ?two] f(1) h
  have 1: "remove_annotation socket_C ?d1 (store_4821(''4821'' \<mapsto> ?two)) =
     Returns
       (store_4821(''4821'' \<mapsto> room_4821\<lparr>annotations := [gas_danger]\<rparr>), socket_C,
        [SaveRoomState ''4821'' (room_4821\<lparr>annotations := [gas_danger]\<rparr>),
         Emit (Some ''4821'') ''annotation-removed''
           [JObj [(''id'', JStr ''arrow_1714557000000'')]]])"
    by (auto simp: f i)
  from remove_annotation_filters [where data = ?d2 and code = "''4821''" and sock = socket_C
      and rooms = "store_4821(''4821'' \<mapsto> ?two)" and room = ?two] f(2) h
  have 2: "remove_annotation socket_C ?d2 (store_4821(''4821'' \<mapsto> ?two)) =
     Returns
       (store_4821(''4821'' \<mapsto> ?two), socket_C,
        [SaveRoomState ''4821'' ?two,
         Emit (Some ''4821'') ''annotation-removed'' [JObj [(''id'', JStr ''arrow_0'')]]])"
    by (auto simp: f i)
  from 1 2 show ?thesis by simp
qed

section \<open>What a handler leaves of the store\<close>

lemmas relay_defs =
  tablet_movement_def touch_movement_def toggle_flashlight_def request_placement_def
  camera_position_def placement_position_def to_display_def to_controller_def

lemmas add_defs =
  add_danger_zone_def add_arrow_def add_incident_def add_restricted_zone_def add_annotation_def

lemma create_room_Returns:
  assumes "create_room sock e callback rooms = Returns (rooms', sock', effs)"
  shows "\<exists>code. generateRoomCode (mathRandom e) rooms = Some code \<and> rooms code = None \<and>
           rooms' = rooms(code \<mapsto> \<lparr>displaySocket = Some (socket_id sock), controllerSocket = None,
                                     annotations = [], createdAt = toISOString e 0\<rparr>) \<and>
           sock' = sock\<lparr>roomId := Some code, deviceType := Some Display\<rparr> \<and>
           effs = Join code #
             ack callback (JObj [(''success'', JBool True), (''roomCode'', JStr code)])"
proof (cases "generateRoomCode (mathRandom e) rooms")
  case None
  with assms show ?thesis by (simp add: create_room_def)
next
  case (Some code)
  then have "rooms code = None"
    using generateRoomCode_from_Some [of "mathRandom e" rooms 0 code]
    by (auto simp: generateRoomCode_def)
  with Some assms show ?thesis by (auto simp: create_room_def reply_eq split: if_splits)
qed

lemma joined_ack: "concat (map joined (ack callback v)) = []"
  by (cases callback) simp_all

lemma handle_dom:
  assumes "handle sock e ev rooms = Returns (rooms', sock', effs)"
  shows "dom rooms \<subseteq> dom rooms'"
proof (cases ev)
  case (CreateRoom b)
  with assms create_room_Returns [of sock e b rooms rooms' sock' effs] show ?thesis by auto
next
  case (JoinRoom c b)
  with assms show ?thesis
    by (auto simp: join_room_def rooms_get_Some_iff reply_eq split: option.splits if_splits)
next
  case (ClearAnnotations d)
  with assms show ?thesis
    by (auto simp: clear_annotations_def rooms_get_Some_iff Let_def split: option.splits if_splits)
next
  case (RemoveAnnotation d)
  with assms show ?thesis
    by (auto simp: remove_annotation_def rooms_get_Some_iff Let_def split: option.splits if_splits)
next
  case Disconnect
  with assms show ?thesis
    by (auto simp: disconnect_def split: option.splits if_splits)
next
  case (ReconnectRoom d b)
  with assms show ?thesis
    by (auto simp: reconnect_room_def rooms_get_Some_iff reply_eq split: option.splits if_splits)
qed (use assms in \<open>auto simp: relay_defs add_defs rooms_get_Some_iff Let_def
      split: option.splits if_splits\<close>)

lemma handle_cleared:
  assumes "handle sock e ev rooms = Returns (rooms', sock', effs)"
    and "\<not> adds_annotation ev" and "cleared rooms code"
  shows "cleared rooms' code"
proof (cases ev)
  case (CreateRoom b)
  with assms create_room_Returns [of sock e b rooms rooms' sock' effs] show ?thesis
    by (auto simp: cleared_def split: option.splits if_splits)
next
  case (JoinRoom c b)
  with assms show ?thesis
    by (auto simp: join_room_def rooms_get_Some_iff cleared_def reply_eq
        split: option.splits if_splits)
next
  case (ClearAnnotations d)
  with assms show ?thesis
    by (auto simp: clear_annotations_def rooms_get_Some_iff Let_def cleared_def
        split: option.splits if_splits)
next
  case (RemoveAnnotation d)
  with assms show ?thesis
    by (auto simp: remove_annotation_def rooms_get_Some_iff Let_def cleared_def
        split: option.splits if_splits)
next
  case Disconnect
  with assms show ?thesis
    by (auto simp: disconnect_def cleared_def split: option.splits if_splits)
next
  case (ReconnectRoom d b)
  with assms show ?thesis
    by (auto simp: reconnect_room_def rooms_get_Some_iff cleared_def reply_eq
        split: option.splits if_splits)
qed (use assms in \<open>auto simp: relay_defs split: option.splits if_splits\<close>)

section \<open>Runs of the server\<close>

lemma step_Message_Returns:
  assumes "step st (Message sid e ev) = Returns (st', effs)"
  shows "(sockets st sid = None \<and> st' = st \<and> effs = []) \<or>
         (\<exists>sock rooms' sock'. sockets st sid = Some sock \<and>
            handle sock e ev (store st) = Returns (rooms', sock', effs) \<and> store st' = rooms')"
  using assms by (auto split: option.splits result.splits)

lemma step_dom:
  assumes "step st a = Returns (st', effs)"
  shows "dom (store st) \<subseteq> dom (store st')"
proof (cases a)
  case (Connection sid)
  with assms show ?thesis by auto
next
  case (Message sid e ev)
  with assms step_Message_Returns [of st sid e ev st' effs] show ?thesis
    by (auto dest: handle_dom)
qed

lemma step_issued:
  assumes "step st a = Returns (st', effs)"
  shows "distinct (issued a effs) \<and> set (issued a effs) \<inter> dom (store st) = {} \<and>
         set (issued a effs) \<subseteq> dom (store st')"
proof (cases "\<exists>sid e callback. a = Message sid e (CreateRoom callback)")
  case True
  then obtain sid e callback where a: "a = Message sid e (CreateRoom callback)" by blast
  from assms [unfolded a] step_Message_Returns [of st sid e "CreateRoom callback" st' effs]
  consider "effs = []"
    | sock rooms' sock' where "create_room sock e callback (store st) = Returns (rooms', sock', effs)"
        "store st' = rooms'"
    by auto
  then show ?thesis
  proof cases
    case 1
    then show ?thesis by (simp add: a)
  next
    case 2
    from create_room_Returns [OF 2(1)] obtain code
      where c: "store st code = None" "rooms' = (store st)(code \<mapsto>
                 \<lparr>displaySocket = Some (socket_id sock), controllerSocket = None,
                  annotations = [], createdAt = toISOString e 0\<rparr>)"
        "effs = Join code # ack callback (JObj [(''success'', JBool True), (''roomCode'', JStr code)])"
      by blast
    have "issued a effs = [code]" by (simp add: a c(3) joined_ack)
    with c(1,2) 2(2) show ?thesis by auto
  qed
next
  case False
  then have "issued a effs = []"
    by (cases "(a, effs)" rule: issued.cases) auto
  then show ?thesis by simp
qed

lemma allocated_Nil: "allocated [] logs = []"
  by (simp add: allocated_def)

lemma allocated_Cons:
  "allocated (a # acts) (effs # logs) = issued a effs @ allocated acts logs"
  by (simp add: allocated_def)

lemma run_Cons_Returns:
  assumes "run st (a # acts) = Returns (st'', logs)"
  shows "\<exists>st' effs logs'. step st a = Returns (st', effs) \<and> run st' acts = Returns (st'', logs') \<and>
           logs = effs # logs'"
  using assms by (auto split: result.splits)

lemma run_allocated:
  assumes "run st acts = Returns (st', logs)"
  shows "dom (store st) \<subseteq> dom (store st') \<and> distinct (allocated acts logs) \<and>
         set (allocated acts logs) \<inter> dom (store st) = {} \<and>
         set (allocated acts logs) \<subseteq> dom (store st')"
  using assms
proof (induction acts arbitrary: st logs)
  case Nil
  then show ?case by (simp add: allocated_Nil)
next
  case (Cons a acts)
  from run_Cons_Returns [OF Cons.prems] obtain st1 effs logs'
    where s: "step st a = Returns (st1, effs)" and r: "run st1 acts = Returns (st', logs')"
      and l: "logs = effs # logs'" by blast
  from Cons.IH [OF r] have ih: "dom (store st1) \<subseteq> dom (store st')"
    "distinct (allocated acts logs')" "set (allocated acts logs') \<inter> dom (store st1) = {}"
    "set (allocated acts logs') \<subseteq> dom (store st')" by simp_all
  from step_dom [OF s] have d: "dom (store st) \<subseteq> dom (store st1)" .
  from step_issued [OF s] have i: "distinct (issued a effs)"
    "set (issued a effs) \<inter> dom (store st) = {}" "set (issued a effs) \<subseteq> dom (store st1)"
    by simp_all
  have "set (issued a effs) \<inter> set (allocated acts logs') = {}" using i(3) ih(3) by blast
  moreover have "set (allocated acts logs') \<inter> dom (store st) = {}" using d ih(3) by blast
  moreover have "set (issued a effs) \<subseteq> dom (store st')" using i(3) ih(1) by blast
  moreover have "dom (store st) \<subseteq> dom (store st')" using d ih(1) by blast
  ultimately show ?case using ih(2,4) i(1,2) by (simp add: l allocated_Cons Int_Un_distrib2)
qed

lemma step_cleared:
  assumes "step st a = Returns (st', effs)" and "\<not> is_addition a" and "cleared (store st) code"
  shows "cleared (store st') code"
proof (cases a)
  case (Connection sid)
  with assms show ?thesis by auto
next
  case (Message sid e ev)
  with assms step_Message_Returns [of st sid e ev st' effs] show ?thesis
    by (auto dest: handle_cleared)
qed

lemma run_cleared:
  assumes "run st acts = Returns (st', logs)" and "filter is_addition acts = []"
    and "cleared (store st) code"
  shows "cleared (store st') code"
  using assms
proof (induction acts arbitrary: st logs)
  case Nil
  then show ?case by simp
next
  case (Cons a acts)
  from run_Cons_Returns [OF Cons.prems(1)] obtain st1 effs logs'
    where s: "step st a = Returns (st1, effs)" and r: "run st1 acts = Returns (st', logs')"
    by blast
  from Cons.prems(2) have na: "\<not> is_addition a" and rest: "filter is_addition acts = []"
    by (auto split: if_splits)
  from step_cleared [OF s na Cons.prems(3)] have "cleared (store st1) code" .
  from Cons.IH [OF r rest this] show ?case .
qed

lemma clear_annotations_existing:
  assumes "field data ''roomId'' = JStr code" and "rooms code = Some room"
  shows "clear_annotations sock data rooms =
           Returns (rooms(code \<mapsto> room\<lparr>annotations := []\<rparr>), sock,
             [SaveRoomState code (room\<lparr>annotations := []\<rparr>),
              Emit (Some code) ''annotations-cleared'' []])"
  using assms field_not_nullish [OF assms(1)]
  by (simp add: clear_annotations_def rooms_get_JStr Let_def)

section \<open>The allocator: codes, freshness, termination\<close>

lemma generateRoomCode_shape:
  assumes "\<forall>k. is_double (rnd k) \<and> 0 \<le> rnd k \<and> rnd k < 1"
    and "generateRoomCode rnd rooms = Some code"
  shows "code \<in> code_space \<and> rooms code = None"
proof -
  from assms(2) generateRoomCode_from_Some [of rnd rooms 0 code]
  obtain j where "code = draw rnd j" "rooms code = None"
    by (auto simp: generateRoomCode_def)
  with assms(1) draw_in_code_space [of rnd j] show ?thesis by simp
qed

lemma create_room_issued:
  assumes "create_room sock e callback rooms = Returns (rooms', sock', effs)"
  shows "\<exists>c. generateRoomCode (mathRandom e) rooms = Some c \<and>
           issued (Message sid e (CreateRoom callback)) effs = [c] \<and>
           rooms c = None \<and> rooms' c \<noteq> None \<and> roomId sock' = Some c \<and>
           effs = Join c #
             ack callback (JObj [(''success'', JBool True), (''roomCode'', JStr c)])"
proof -
  from create_room_Returns [OF assms] obtain c
    where c: "generateRoomCode (mathRandom e) rooms = Some c" "rooms c = None"
      "rooms' = rooms(c \<mapsto> \<lparr>displaySocket = Some (socket_id sock), controllerSocket = None,
                               annotations = [], createdAt = toISOString e 0\<rparr>)"
      "sock' = sock\<lparr>roomId := Some c, deviceType := Some Display\<rparr>"
      "effs = Join c # ack callback (JObj [(''success'', JBool True), (''roomCode'', JStr c)])"
    by blast
  have "issued (Message sid e (CreateRoom callback)) effs = [c]"
    by (simp add: c(5) joined_ack)
  then show ?thesis using c by simp
qed

text \<open>
  Claim C4. With \<^verbatim>\<open>Math.random()\<close> a double in \<open>[0, 1)\<close> and the product and the
  sum rounded as doubles, a code that \<^verbatim>\<open>generateRoomCode\<close> returns has four
  characters, all decimal digits, reads as a number from 1000 to 9999 and is not a key
  of the store. The code of a \<^verbatim>\<open>create-room\<close> is the one the allocator returned: the
  socket joins it, it becomes a key, and it is acknowledged. No handler removes a key,
  so in every run of the server that returns, the codes allocated by its
  \<^verbatim>\<open>create-room\<close> events are pairwise distinct, differ from every key the store had
  at the start, and are all keys at the end.
\<close>

theorem allocated_codes_fresh_and_distinct:
  "((\<forall>k. is_double (rnd k) \<and> 0 \<le> rnd k \<and> rnd k < 1) \<and>
      generateRoomCode rnd rooms = Some code \<longrightarrow>
      length code = 4 \<and> list_all is_digit code \<and>
      1000 \<le> numeric_value code \<and> numeric_value code \<le> 9999 \<and> rooms code = None) \<and>
   (create_room sock e callback rooms = Returns (rooms', sock', effs) \<longrightarrow>
      (\<exists>c. generateRoomCode (mathRandom e) rooms = Some c \<and>
           issued (Message sid e (CreateRoom callback)) effs = [c] \<and>
           rooms c = None \<and> rooms' c \<noteq> None \<and> roomId sock' = Some c \<and>
           effs = Join c #
             ack callback (JObj [(''success'', JBool True), (''roomCode'', JStr c)]))) \<and>
   (run st acts = Returns (st', logs) \<longrightarrow>
      distinct (allocated acts logs) \<and> set (allocated acts logs) \<inter> dom (store st) = {} \<and>
      set (allocated acts logs) \<subseteq> dom (store st') \<and> dom (store st) \<subseteq> dom (store st'))"
proof -
  have shape: "(\<forall>k. is_double (rnd k) \<and> 0 \<le> rnd k \<and> rnd k < 1) \<and>
      generateRoomCode rnd rooms = Some code \<longrightarrow>
      length code = 4 \<and> list_all is_digit code \<and>
      1000 \<le> numeric_value code \<and> numeric_value code \<le> 9999 \<and> rooms code = None"
  proof
    assume h: "(\<forall>k. is_double (rnd k) \<and> 0 \<le> rnd k \<and> rnd k < 1) \<and>
      generateRoomCode rnd rooms = Some code"
    then have c: "code \<in> code_space" "rooms code = None"
      using generateRoomCode_shape [of rnd rooms code] by simp_all
    from code_space_shape [OF c(1)] c(2)
    show "length code = 4 \<and> list_all is_digit code \<and>
      1000 \<le> numeric_value code \<and> numeric_value code \<le> 9999 \<and> rooms code = None"
      by (simp add: list_all_iff)
  qed
  have created: "create_room sock e callback rooms = Returns (rooms', sock', effs) \<longrightarrow>
      (\<exists>c. generateRoomCode (mathRandom e) rooms = Some c \<and>
           issued (Message sid e (CreateRoom callback)) effs = [c] \<and>
           rooms c = None \<and> rooms' c \<noteq> None \<and> roomId sock' = Some c \<and>
           effs = Join c #
             ack callback (JObj [(''success'', JBool True), (''roomCode'', JStr c)]))"
    using create_room_issued [of sock e callback rooms rooms' sock' effs sid] by blast
  have runs: "run st acts = Returns (st', logs) \<longrightarrow>
      distinct (allocated acts logs) \<and> set (allocated acts logs) \<inter> dom (store st) = {} \<and>
      set (allocated acts logs) \<subseteq> dom (store st') \<and> dom (store st) \<subseteq> dom (store st')"
    using run_allocated [of st acts st' logs] by blast
  from shape created runs show ?thesis by (intro conjI)
qed

lemma is_double_half: "is_double (1 / 2)"
  by (rule is_doubleI [of "2 ^ 51" "- 52"]) simp_all

lemma is_double_4500: "is_double 4500"
  by (rule is_doubleI [of 4500 0]) simp_all

lemma is_double_5500: "is_double 5500"
  by (rule is_doubleI [of 5500 0]) simp_all

lemma zero_then_half_unit:
  "is_double (zero_then_half k) \<and> 0 \<le> zero_then_half k \<and> zero_then_half k < 1"
  by (simp add: zero_then_half_def is_double_zero is_double_half)

lemma draw_zero_then_half_0: "draw zero_then_half 0 = ''1000''"
proof -
  have "fl 1000 = 1000" by (rule fl_id [OF is_double_1000]) simp_all
  then show ?thesis
    by (simp add: draw_def js_plus_def js_times_def zero_then_half_def fl_zero
        toString_def digits.simps digit_char_def)
qed

lemma draw_zero_then_half_1: "draw zero_then_half (Suc k) = ''5500''"
proof -
  have "fl 4500 = 4500" by (rule fl_id [OF is_double_4500]) simp_all
  moreover have "fl 5500 = 5500" by (rule fl_id [OF is_double_5500]) simp_all
  ultimately show ?thesis
    by (simp add: draw_def js_plus_def js_times_def zero_then_half_def
        toString_def digits.simps digit_char_def)
qed

theorem allocated_codes_fresh_and_distinct_witness:
  "(\<forall>k. is_double (zero_then_half k) \<and> 0 \<le> zero_then_half k \<and> zero_then_half k < 1) \<and>
   generateRoomCode zero_then_half (store_4821(''1000'' \<mapsto> room_4821)) = Some ''5500'' \<and>
   length ''5500'' = 4 \<and> list_all is_digit ''5500'' \<and> numeric_value ''5500'' = 5500 \<and>
   (\<exists>st' logs.
      run server_0 [Message ''display-A'' env_0 (CreateRoom Function),
                    Message ''controller-B'' env_0 (CreateRoom Function)] = Returns (st', logs) \<and>
      allocated [Message ''display-A'' env_0 (CreateRoom Function),
                 Message ''controller-B'' env_0 (CreateRoom Function)] logs = [''1000'', ''5500''] \<and>
      dom (store st') = {''4821'', ''1000'', ''5500''})"
proof -
  let ?acts = "[Message ''display-A'' env_0 (CreateRoom Function),
                Message ''controller-B'' env_0 (CreateRoom Function)]"
  have g0: "generateRoomCode zero_then_half store_4821 = Some ''1000''"
    by (simp add: generateRoomCode_def generateRoomCode_from.simps draw_zero_then_half_0
        store_4821_def)
  have g1: "generateRoomCode zero_then_half (store_4821(''1000'' \<mapsto> r)) = Some ''5500''" for r
    by (simp add: generateRoomCode_def generateRoomCode_from.simps draw_zero_then_half_0
        draw_zero_then_half_1 store_4821_def)
  let ?st' = "\<lparr>store = store_4821
          (''1000'' \<mapsto> \<lparr>displaySocket = Some ''display-A'', controllerSocket = None,
                         annotations = [], createdAt = ''2024-05-01T10:00:00.000Z''\<rparr>,
           ''5500'' \<mapsto> \<lparr>displaySocket = Some ''controller-B'', controllerSocket = None,
                         annotations = [], createdAt = ''2024-05-01T10:00:00.000Z''\<rparr>),
        sockets = Map.empty
          (''controller-A'' \<mapsto> socket_C,
           ''display-A'' \<mapsto> socket_A\<lparr>roomId := Some ''1000'', deviceType := Some Display\<rparr>,
           ''controller-B'' \<mapsto> socket_B\<lparr>roomId := Some ''5500'', deviceType := Some Display\<rparr>)\<rparr>"
  let ?logs = "[[Join ''1000'',
                 Ack (JObj [(''success'', JBool True), (''roomCode'', JStr ''1000'')])],
                [Join ''5500'',
                 Ack (JObj [(''success'', JBool True), (''roomCode'', JStr ''5500'')])]]"
  have i: "socket_id socket_A = ''display-A''" "socket_id socket_B = ''controller-B''"
    by (simp_all add: socket_A_def socket_B_def)
  have r: "run server_0 ?acts = Returns (?st', ?logs)"
    by (simp add: server_0_def env_0_def create_room_def reply_eq g0 g1 i)
  have a: "allocated ?acts ?logs = [''1000'', ''5500'']"
    by (simp add: allocated_def)
  have d: "dom (store ?st') = {''4821'', ''1000'', ''5500''}"
    by (auto simp: store_4821_def)
  have u: "\<forall>k. is_double (zero_then_half k) \<and> 0 \<le> zero_then_half k \<and> zero_then_half k < 1"
    using zero_then_half_unit by blast
  note t = allocated_codes_fresh_and_distinct [where rnd = zero_then_half
      and rooms = "store_4821(''1000'' \<mapsto> room_4821)" and code = "''5500''"
      and st = server_0 and acts = ?acts and st' = ?st' and logs = ?logs]
  from t g1 [of room_4821] u have "length ''5500'' = 4 \<and> list_all is_digit ''5500'' \<and>
      1000 \<le> numeric_value ''5500'' \<and> numeric_value ''5500'' \<le> 9999" by blast
  moreover have "numeric_value ''5500'' = 5500" by (simp add: numeric_value_def digit_value_def)
  moreover from t r have "distinct (allocated ?acts ?logs)" by blast
  ultimately show ?thesis using g1 [of room_4821] r a d u by blast
qed







section \<open>Clearing the annotations\<close>

lemma step_handle:
  assumes "sockets st sid = Some sock"
    and "handle sock e ev (store st) = Returns (rooms', sock', effs)"
  shows "\<exists>st'. step st (Message sid e ev) = Returns (st', effs) \<and> store st' = rooms'"
  using assms by simp

lemma cleared_after_clear:
  assumes "store st code = Some room" and "sockets st sid = Some sock"
    and "field data ''roomId'' = JStr code"
    and "filter is_addition acts = []"
    and "run st (Message sid e (ClearAnnotations data) # acts) = Returns (st', logs)"
  shows "cleared (store st') code"
proof -
  from run_Cons_Returns [OF assms(5)] obtain st1 effs logs'
    where s: "step st (Message sid e (ClearAnnotations data)) = Returns (st1, effs)"
      and r: "run st1 acts = Returns (st', logs')" by blast
  from clear_annotations_existing [where data = data and code = code and rooms = "store st"
      and room = room and sock = sock] assms(1,3)
  have "handle sock e (ClearAnnotations data) (store st) =
          Returns ((store st)(code \<mapsto> room\<lparr>annotations := []\<rparr>), sock,
            [SaveRoomState code (room\<lparr>annotations := []\<rparr>),
             Emit (Some code) ''annotations-cleared'' []])"
    by simp
  from step_handle [OF assms(2) this] s
  have "store st1 = (store st)(code \<mapsto> room\<lparr>annotations := []\<rparr>)" by auto
  then have "cleared (store st1) code" by (simp add: cleared_def)
  from run_cleared [OF r assms(4) this] show ?thesis .
qed

lemma join_cleared_room:
  assumes "rooms code = Some room" and "annotations room = []"
    and "sockets st sid = Some sock" and "store st = rooms"
  shows "\<exists>st' effs. step st (Message sid e (JoinRoom (JStr code) Function)) = Returns (st', effs) \<and>
           acks effs = [JObj [(''success'', JBool True), (''annotations'', JArr [])]]"
  using assms by (simp add: join_room_def rooms_get_JStr reply_eq annotations_js_def)

lemma field_success_ok:
  "field (JObj ((''success'', JBool b) # ps)) ''success'' = JBool b"
  by (simp add: field_def obj_prop_def)

lemma reconnect_cleared_room:
  assumes "rooms code = Some room" and "annotations room = []"
    and "sockets st sid = Some sock" and "store st = rooms"
    and "field d ''roomId'' = JStr code"
  shows "\<exists>st' effs v. step st (Message sid e (ReconnectRoom d Function)) = Returns (st', effs) \<and>
           acks effs = [v] \<and>
           (field v ''success'' = JBool True \<longleftrightarrow>
              field d ''deviceType'' = JStr ''display'' \<and> \<not> bound (displaySocket room) \<or>
              field d ''deviceType'' = JStr ''controller'' \<and> \<not> bound (controllerSocket room)) \<and>
           (field v ''success'' = JBool True \<longrightarrow> field v ''annotations'' = JArr [])"
proof -
  consider (display) "field d ''deviceType'' = JStr ''display''" "\<not> bound (displaySocket room)"
    | (controller) "\<not> (field d ''deviceType'' = JStr ''display'' \<and> \<not> bound (displaySocket room))"
        "field d ''deviceType'' = JStr ''controller''" "\<not> bound (controllerSocket room)"
    | (refused) "\<not> (field d ''deviceType'' = JStr ''display'' \<and> \<not> bound (displaySocket room))"
        "\<not> (field d ''deviceType'' = JStr ''controller'' \<and> \<not> bound (controllerSocket room))"
    by blast
  then show ?thesis
  proof cases
    case display
    with assms field_not_nullish [OF assms(5)] show ?thesis
      by (simp add: reconnect_room_def rooms_get_JStr reply_eq annotations_js_def
          field_def [of "JObj _"] obj_prop_def)
  next
    case controller
    with assms field_not_nullish [OF assms(5)] show ?thesis
      by (auto simp: reconnect_room_def rooms_get_JStr reply_eq annotations_js_def
          field_def [of "JObj _"] obj_prop_def)
  next
    case refused
    with assms field_not_nullish [OF assms(5)] show ?thesis
      by (auto simp: reconnect_room_def rooms_get_JStr reply_eq annotations_js_def
          field_def [of "JObj _"] obj_prop_def)
  qed
qed

text \<open>
  Claim C7, as the code has it. After a \<^verbatim>\<open>clear-annotations\<close> on an existing room
  and any further actions none of which adds an annotation, the room is still in the
  store and its annotation sequence is empty. A \<^verbatim>\<open>join-room\<close> on that code is then
  acknowledged with success and the empty annotation list. A \<^verbatim>\<open>reconnect-room\<close> on
  that code succeeds exactly when its device type is one of the two roles and that
  role's slot is empty, and a successful one is acknowledged with the empty annotation
  list.
\<close>

theorem cleared_room_answers_empty:
  assumes "store st code = Some room" and "sockets st sid = Some sock"
    and "field data ''roomId'' = JStr code"
    and "filter is_addition acts = []"
    and "run st (Message sid e (ClearAnnotations data) # acts) = Returns (st', logs)"
    and "sockets st' sid' = Some sock'"
  shows "\<exists>room'. store st' code = Some room' \<and> annotations room' = [] \<and>
           (\<exists>st'' effs.
              step st' (Message sid' e' (JoinRoom (JStr code) Function)) = Returns (st'', effs) \<and>
              acks effs = [JObj [(''success'', JBool True), (''annotations'', JArr [])]]) \<and>
           (field d ''roomId'' = JStr code \<longrightarrow>
              (\<exists>st'' effs v.
                 step st' (Message sid' e' (ReconnectRoom d Function)) = Returns (st'', effs) \<and>
                 acks effs = [v] \<and>
                 (field v ''success'' = JBool True \<longleftrightarrow>
                    field d ''deviceType'' = JStr ''display'' \<and> \<not> bound (displaySocket room') \<or>
                    field d ''deviceType'' = JStr ''controller'' \<and>
                      \<not> bound (controllerSocket room')) \<and>
                 (field v ''success'' = JBool True \<longrightarrow> field v ''annotations'' = JArr [])))"
proof -
  from cleared_after_clear [OF assms(1-5)] obtain room'
    where r: "store st' code = Some room'" "annotations room' = []"
    by (auto simp: cleared_def split: option.splits)
  have j: "\<exists>st'' effs.
      step st' (Message sid' e' (JoinRoom (JStr code) Function)) = Returns (st'', effs) \<and>
      acks effs = [JObj [(''success'', JBool True), (''annotations'', JArr [])]]"
    by (rule join_cleared_room [OF r assms(6) refl])
  have c: "field d ''roomId'' = JStr code \<longrightarrow>
      (\<exists>st'' effs v.
         step st' (Message sid' e' (ReconnectRoom d Function)) = Returns (st'', effs) \<and>
         acks effs = [v] \<and>
         (field v ''success'' = JBool True \<longleftrightarrow>
            field d ''deviceType'' = JStr ''display'' \<and> \<not> bound (displaySocket room') \<or>
            field d ''deviceType'' = JStr ''controller'' \<and> \<not> bound (controllerSocket room')) \<and>
         (field v ''success'' = JBool True \<longrightarrow> field v ''annotations'' = JArr []))"
    using reconnect_cleared_room [OF r assms(6) refl] by blast
  from r j c show ?thesis by blast
qed

text \<open>
  The claim as it is written fails for a \<^verbatim>\<open>reconnect-room\<close> that is refused: the
  controller clears room 4821, whose display is bound, and a reconnect as display is
  acknowledged with the failure, which carries no annotation list.
\<close>

theorem reconnect_after_clear_counterexample:
  "final_acks
     (run server_0
        [Message ''controller-A'' env_0 (ClearAnnotations (JObj [(''roomId'', JStr ''4821'')])),
         Message ''controller-B'' env_0
           (ReconnectRoom (reconnect_data ''4821'' ''display'') Function)]) =
     [JObj [(''success'', JBool False), (''error'', JStr ''Device type already connected'')]] \<and>
   field (JObj [(''success'', JBool False), (''error'', JStr ''Device type already connected'')])
     ''annotations'' = JUndefined"
  by (simp add: final_acks_def server_0_def store_4821_def room_4821_def socket_C_def
      socket_B_def clear_annotations_def reconnect_room_def reconnect_data_def rooms_get_def
      field_def obj_prop_def nullish_def bound_def reply_eq Let_def)

theorem cleared_room_answers_empty_witness:
  "store server_1 ''4821'' = Some (room_4821\<lparr>controllerSocket := None\<rparr>) \<and>
   filter is_addition
     [Message ''display-A'' env_0
        (CameraPosition (JObj [(''roomId'', JStr ''4821''), (''position'', JArr [JNum 1, JNum 2, JNum 3])]))] = [] \<and>
   run server_1
     [Message ''display-A'' env_0 (ClearAnnotations (JObj [(''roomId'', JStr ''4821'')])),
      Message ''display-A'' env_0
        (CameraPosition (JObj [(''roomId'', JStr ''4821''), (''position'', JArr [JNum 1, JNum 2, JNum 3])]))] =
     Returns
       (server_1\<lparr>store := store_4821(''4821'' \<mapsto> room_4821\<lparr>controllerSocket := None, annotations := []\<rparr>)\<rparr>,
        [[SaveRoomState ''4821'' (room_4821\<lparr>controllerSocket := None, annotations := []\<rparr>),
          Emit (Some ''4821'') ''annotations-cleared'' []],
         []]) \<and>
   (\<exists>st'' effs.
      step (server_1\<lparr>store := store_4821(''4821'' \<mapsto> room_4821\<lparr>controllerSocket := None, annotations := []\<rparr>)\<rparr>)
        (Message ''controller-B'' env_0 (JoinRoom (JStr ''4821'') Function)) = Returns (st'', effs) \<and>
      acks effs = [JObj [(''success'', JBool True), (''annotations'', JArr [])]]) \<and>
   (\<exists>st'' effs v.
      step (server_1\<lparr>store := store_4821(''4821'' \<mapsto> room_4821\<lparr>controllerSocket := None, annotations := []\<rparr>)\<rparr>)
        (Message ''controller-B'' env_0 (ReconnectRoom (reconnect_data ''4821'' ''controller'') Function)) =
        Returns (st'', effs) \<and>
      acks effs = [v] \<and> field v ''success'' = JBool True \<and> field v ''annotations'' = JArr [])"
proof -
  let ?clear = "Message ''display-A'' env_0 (ClearAnnotations (JObj [(''roomId'', JStr ''4821'')]))"
  let ?camera = "Message ''display-A'' env_0
        (CameraPosition (JObj [(''roomId'', JStr ''4821''), (''position'', JArr [JNum 1, JNum 2, JNum 3])]))"
  let ?room' = "room_4821\<lparr>controllerSocket := None, annotations := []\<rparr>"
  let ?st' = "server_1\<lparr>store := store_4821(''4821'' \<mapsto> ?room')\<rparr>"
  let ?logs = "[[SaveRoomState ''4821'' ?room', Emit (Some ''4821'') ''annotations-cleared'' []], []]"
  have h1: "store server_1 ''4821'' = Some (room_4821\<lparr>controllerSocket := None\<rparr>)"
    by (simp add: server_1_def)
  have h2: "sockets server_1 ''display-A'' = Some socket_A" by (simp add: server_1_def)
  have h3: "field (JObj [(''roomId'', JStr ''4821'')]) ''roomId'' = JStr ''4821''"
    by (simp add: field_def obj_prop_def)
  have h4: "filter is_addition [?camera] = []" by simp
  have m: "[''controller-B'' \<mapsto> socket_B, ''display-A'' \<mapsto> socket_A] =
           [''display-A'' \<mapsto> socket_A, ''controller-B'' \<mapsto> socket_B]"
    by (rule ext) simp
  have h5: "run server_1 [?clear, ?camera] = Returns (?st', ?logs)"
    by (simp add: server_1_def store_4821_def room_4821_def clear_annotations_def
        camera_position_def to_controller_def rooms_get_def field_def obj_prop_def nullish_def
        bound_def Let_def m)
  have h6: "sockets ?st' ''controller-B'' = Some socket_B" by (simp add: server_1_def)
  have h7: "field (reconnect_data ''4821'' ''controller'') ''roomId'' = JStr ''4821''"
    "field (reconnect_data ''4821'' ''controller'') ''deviceType'' = JStr ''controller''"
    by (simp_all add: reconnect_data_def field_def obj_prop_def)
  from cleared_room_answers_empty [OF h1 h2 h3 h4 h5 h6,
      where e' = env_0 and d = "reconnect_data ''4821'' ''controller''"]
  obtain room' where r: "store ?st' ''4821'' = Some room'"
    and j: "\<exists>st'' effs.
      step ?st' (Message ''controller-B'' env_0 (JoinRoom (JStr ''4821'') Function)) = Returns (st'', effs) \<and>
      acks effs = [JObj [(''success'', JBool True), (''annotations'', JArr [])]]"
    and c: "field (reconnect_data ''4821'' ''controller'') ''roomId'' = JStr ''4821'' \<longrightarrow>
      (\<exists>st'' effs v.
         step ?st' (Message ''controller-B'' env_0
           (ReconnectRoom (reconnect_data ''4821'' ''controller'') Function)) = Returns (st'', effs) \<and>
         acks effs = [v] \<and>
         (field v ''success'' = JBool True \<longleftrightarrow>
            field (reconnect_data ''4821'' ''controller'') ''deviceType'' = JStr ''display'' \<and>
              \<not> bound (displaySocket room') \<or>
            field (reconnect_data ''4821'' ''controller'') ''deviceType'' = JStr ''controller'' \<and>
              \<not> bound (controllerSocket room')) \<and>
         (field v ''success'' = JBool True \<longrightarrow> field v ''annotations'' = JArr []))"
    by blast
  from r have "room' = ?room'" by simp
  then have "\<not> bound (controllerSocket room')" by (simp add: bound_def)
  with c h7 have "\<exists>st'' effs v.
      step ?st' (Message ''controller-B'' env_0
        (ReconnectRoom (reconnect_data ''4821'' ''controller'') Function)) = Returns (st'', effs) \<and>
      acks effs = [v] \<and> field v ''success'' = JBool True \<and> field v ''annotations'' = JArr []"
    by blast
  with h1 h4 h5 j show ?thesis by blast
qed

end
